theory Spec2Isabelle
  imports Main "HOL-Library.Word"
begin

unbundle bit_operations_syntax

section \<open>The surroundings of SentryUtils.cpp\<close>

text \<open>
  SentryUtils.cpp is the crash-reporting bootstrap of the bridge GUI. It computes a few
  strings and drives two external libraries: Qt (paths, directories, hashing) and the
  sentry-native C client (options, scope, events). Text values of the source
  (\<open>QString\<close>, \<open>QByteArray\<close>, \<open>const char *\<close>) are \<open>string\<close>s: an Isabelle \<open>char\<close> is
  one byte, and a text is held as its UTF-8 bytes, so that \<open>toStdString().c_str()\<close>
  and the implicit conversions between these types keep the representation and are not
  written. Binary data (the input and the output of the hash) is a list of bytes. A
  \<open>const char *\<close> argument is taken to point to a C string.
\<close>

type_synonym byte = "8 word"
type_synonym u32 = "32 word"

text \<open>
  Modelled from the spec: the OS family enumeration \<open>bridgepp::OS\<close>, declared in
  bridgepp/BridgeUtils.h, which is not part of the sources at hand. The source names the
  members \<open>MacOS\<close>, \<open>Windows\<close> and \<open>Linux\<close>; \<open>OtherOS n\<close> stands for any further value of
  the enumeration's underlying integer, which the \<open>default:\<close> label of \<open>getApiOS\<close> receives.
\<close>

datatype OS = Linux | MacOS | Windows | OtherOS nat

text \<open>The macros of BuildConfig.h, generated at build time.\<close>

record BuildConfig =
  PROJECT_DSN_SENTRY :: string
  PROJECT_CRASHPAD_HANDLER_PATH :: string
  PROJECT_FULL_NAME :: string
  PROJECT_REVISION :: string
  PROJECT_VER :: string
  PROJECT_BUILD_ENV :: string

text \<open>
  The values of the sentry-native client (\<open>sentry_value_t\<close>): null, a string, a list, or
  an object, which is a sequence of key/value pairs.
\<close>

datatype sentry_value_t =
    VNull
  | VString string
  | VList "sentry_value_t list"
  | VObject "(string \<times> sentry_value_t) list"

datatype sentry_level_t =
    SENTRY_LEVEL_DEBUG
  | SENTRY_LEVEL_INFO
  | SENTRY_LEVEL_WARNING
  | SENTRY_LEVEL_ERROR
  | SENTRY_LEVEL_FATAL

type_synonym sentry_uuid_t = "128 word"

text \<open>
  The options object (\<open>sentry_options_t\<close>), with the fields this file writes. A text
  field that was never set is \<open>None\<close>.
\<close>

record sentry_options_t =
  dsn :: "string option"
  database_path :: "string option"
  release :: "string option"
  max_breadcrumbs :: "64 word"
  environment :: "string option"
  handler_path :: "string option"

text \<open>
  What the process reads from its surroundings and cannot change: the build
  configuration, the answers of the platform queries, and the answers of the two
  libraries that this file only passes on. \<open>absolutePath d\<close> is
  \<open>QDir(d).absolutePath()\<close>, the directory's absolute path as Qt resolves it against the
  current directory; \<open>init_code\<close> is the value \<open>sentry_init\<close> returns for the options it
  is given; \<open>capture_id\<close> is the identifier \<open>sentry_capture_event\<close> returns for an event.
\<close>

record host =
  build :: BuildConfig
  os :: OS
  goos :: string
  userDataDir :: string
  machineHostName :: string
  currentCpuArchitecture :: string
  absolutePath :: "string \<Rightarrow> string"
  default_options :: sentry_options_t
  init_code :: "sentry_options_t \<Rightarrow> 32 word"
  event_id_text :: string
  timestamp_text :: string
  capture_id :: "sentry_value_t \<Rightarrow> sentry_uuid_t"

text \<open>
  What the process can change: the directories that exist (\<open>dirs\<close>; \<open>denied\<close> holds the
  paths at which the system refuses to create one), the text written to standard error,
  and the state of the telemetry client: the options of every \<open>sentry_init\<close> call, the
  options of the running client, the tags and the user of the scope, the events handed
  to \<open>sentry_capture_event\<close> as they were handed over (\<open>submitted\<close>), and the same events
  as the client captures them, each with the scope of that moment on it (\<open>captured\<close>).
\<close>

record world =
  dirs :: "string set"
  denied :: "string set"
  err :: string
  init_calls :: "sentry_options_t list"
  client :: "sentry_options_t option"
  tags :: "(string \<times> sentry_value_t) list"
  user :: sentry_value_t
  submitted :: "sentry_value_t list"
  captured :: "sentry_value_t list"

section \<open>Qt: paths and directories\<close>

text \<open>
  \<open>QDir(dir).absoluteFilePath(fileName)\<close>: an absolute file name is returned as it is;
  otherwise the name is put behind the directory's absolute path, with one separator
  between them unless the path ends with one.
\<close>

definition absoluteFilePath :: "host \<Rightarrow> string \<Rightarrow> string \<Rightarrow> string" where
  "absoluteFilePath h dir fileName =
     (if fileName \<noteq> [] \<and> hd fileName = CHR ''/'' then fileName
      else
        let d = absolutePath h dir
        in if fileName = [] then d
           else if d \<noteq> [] \<and> last d = CHR ''/'' then d @ fileName
           else d @ ''/'' @ fileName)"

text \<open>The directories above a path: its prefixes that end before a separator.\<close>

definition parents :: "string \<Rightarrow> string list" where
  "parents p = map (\<lambda>i. take i p) (filter (\<lambda>i. p ! i = CHR ''/'') [1..<length p])"

text \<open>
  Creating directories in turn, outermost first: one that exists is kept, one the system
  refuses stops the run with \<open>False\<close>.
\<close>

fun mkdirs :: "string list \<Rightarrow> world \<Rightarrow> bool \<times> world" where
  "mkdirs [] w = (True, w)"
| "mkdirs (d # ds) w =
     (if d \<in> dirs w then mkdirs ds w
      else if d \<in> denied w then (False, w)
      else mkdirs ds (w\<lparr>dirs := insert d (dirs w)\<rparr>))"

text \<open>
  \<open>QDir().mkpath(path)\<close>: returns true at once when the path exists; otherwise creates
  the directory with every parent it needs, and returns whether that succeeded.
\<close>

definition mkpath :: "string \<Rightarrow> world \<Rightarrow> bool \<times> world" where
  "mkpath path w = (if path \<in> dirs w then (True, w) else mkdirs (parents path @ [path]) w)"

text \<open>\<open>sentryCacheDir\<close> (lines 39-43); the result of \<open>mkpath\<close> is dropped.\<close>

definition sentryCacheDir :: "host \<Rightarrow> world \<Rightarrow> string \<times> world" where
  "sentryCacheDir h w =
     (let path = absoluteFilePath h (userDataDir h) ''sentry_cache'';
          (created, w') = mkpath path w
      in (path, w'))"

section \<open>Qt: SHA-256 and hexadecimal text\<close>

text \<open>
  \<open>QCryptographicHash::hash(data, QCryptographicHash::Sha256)\<close> is SHA-256 as FIPS 180-4
  defines it, on 32-bit words.
\<close>

definition rotr :: "nat \<Rightarrow> u32 \<Rightarrow> u32" where
  "rotr n x = drop_bit n x OR push_bit (32 - n) x"

definition Ch :: "u32 \<Rightarrow> u32 \<Rightarrow> u32 \<Rightarrow> u32" where
  "Ch x y z = (x AND y) XOR (NOT x AND z)"

definition Maj :: "u32 \<Rightarrow> u32 \<Rightarrow> u32 \<Rightarrow> u32" where
  "Maj x y z = (x AND y) XOR (x AND z) XOR (y AND z)"

definition bsig0 :: "u32 \<Rightarrow> u32" where
  "bsig0 x = rotr 2 x XOR rotr 13 x XOR rotr 22 x"

definition bsig1 :: "u32 \<Rightarrow> u32" where
  "bsig1 x = rotr 6 x XOR rotr 11 x XOR rotr 25 x"

definition ssig0 :: "u32 \<Rightarrow> u32" where
  "ssig0 x = rotr 7 x XOR rotr 18 x XOR drop_bit 3 x"

definition ssig1 :: "u32 \<Rightarrow> u32" where
  "ssig1 x = rotr 17 x XOR rotr 19 x XOR drop_bit 10 x"

text \<open>
  The round constants: the first 32 bits of the fractional parts of the cube roots of
  the first 64 primes.
\<close>

definition sha256_K :: "u32 list" where
  "sha256_K =
    [1116352408, 1899447441, 3049323471, 3921009573, 961987163, 1508970993, 2453635748,
     2870763221, 3624381080, 310598401, 607225278, 1426881987, 1925078388, 2162078206,
     2614888103, 3248222580, 3835390401, 4022224774, 264347078, 604807628, 770255983,
     1249150122, 1555081692, 1996064986, 2554220882, 2821834349, 2952996808, 3210313671,
     3336571891, 3584528711, 113926993, 338241895, 666307205, 773529912, 1294757372,
     1396182291, 1695183700, 1986661051, 2177026350, 2456956037, 2730485921, 2820302411,
     3259730800, 3345764771, 3516065817, 3600352804, 4094571909, 275423344, 430227734,
     506948616, 659060556, 883997877, 958139571, 1322822218, 1537002063, 1747873779,
     1955562222, 2024104815, 2227730452, 2361852424, 2428436474, 2756734187, 3204031479,
     3329325298]"

type_synonym sha256_state = "u32 \<times> u32 \<times> u32 \<times> u32 \<times> u32 \<times> u32 \<times> u32 \<times> u32"

text \<open>
  The initial hash value: the first 32 bits of the fractional parts of the square roots
  of the first 8 primes.
\<close>

definition sha256_init :: sha256_state where
  "sha256_init =
    (1779033703, 3144134277, 1013904242, 2773480762,
     1359893119, 2600822924, 528734635, 1541459225)"

definition be64 :: "64 word \<Rightarrow> byte list" where
  "be64 x =
     [ucast (drop_bit 56 x), ucast (drop_bit 48 x), ucast (drop_bit 40 x), ucast (drop_bit 32 x),
      ucast (drop_bit 24 x), ucast (drop_bit 16 x), ucast (drop_bit 8 x), ucast x]"

text \<open>
  Padding: a byte 0x80, zero bytes up to 56 modulo 64, and the length of the message in
  bits as a 64-bit big-endian number.
\<close>

definition sha256_pad :: "byte list \<Rightarrow> byte list" where
  "sha256_pad m =
     m @ [128] @ replicate ((119 - length m mod 64) mod 64) 0 @ be64 (8 * word_of_nat (length m))"

fun be_words :: "byte list \<Rightarrow> u32 list" where
  "be_words (a # b # c # d # bs) =
     (push_bit 24 (ucast a) OR push_bit 16 (ucast b) OR push_bit 8 (ucast c) OR ucast d)
       # be_words bs"
| "be_words bs = []"

text \<open>The message schedule: \<open>schedule 48\<close> extends the 16 words of a block to 64.\<close>

fun schedule :: "nat \<Rightarrow> u32 list \<Rightarrow> u32 list" where
  "schedule 0 ws = ws"
| "schedule (Suc n) ws =
     (let t = length ws
      in schedule n
           (ws @ [ssig1 (ws ! (t - 2)) + ws ! (t - 7) + ssig0 (ws ! (t - 15)) + ws ! (t - 16)]))"

fun sha256_round :: "sha256_state \<Rightarrow> u32 \<times> u32 \<Rightarrow> sha256_state" where
  "sha256_round (a, b, c, d, e, f, g, h) (k, w) =
     (let t1 = h + bsig1 e + Ch e f g + k + w;
          t2 = bsig0 a + Maj a b c
      in (t1 + t2, a, b, c, d + t1, e, f, g))"

fun add_state :: "sha256_state \<Rightarrow> sha256_state \<Rightarrow> sha256_state" where
  "add_state (a, b, c, d, e, f, g, h) (a', b', c', d', e', f', g', h') =
     (a + a', b + b', c + c', d + d', e + e', f + f', g + g', h + h')"

definition sha256_block :: "sha256_state \<Rightarrow> byte list \<Rightarrow> sha256_state" where
  "sha256_block s block =
     add_state s (foldl sha256_round s (zip sha256_K (schedule 48 (be_words block))))"

text \<open>The first \<open>n\<close> blocks of 64 bytes, one after the other.\<close>

fun sha256_blocks :: "nat \<Rightarrow> sha256_state \<Rightarrow> byte list \<Rightarrow> sha256_state" where
  "sha256_blocks 0 s bs = s"
| "sha256_blocks (Suc n) s bs = sha256_blocks n (sha256_block s (take 64 bs)) (drop 64 bs)"

definition be32 :: "u32 \<Rightarrow> byte list" where
  "be32 x = [ucast (drop_bit 24 x), ucast (drop_bit 16 x), ucast (drop_bit 8 x), ucast x]"

fun digest_bytes :: "sha256_state \<Rightarrow> byte list" where
  "digest_bytes (a, b, c, d, e, f, g, h) =
     be32 a @ be32 b @ be32 c @ be32 d @ be32 e @ be32 f @ be32 g @ be32 h"

definition sha256 :: "byte list \<Rightarrow> byte list" where
  "sha256 m =
     (let p = sha256_pad m
      in digest_bytes (sha256_blocks (length p div 64) sha256_init p))"

text \<open>\<open>QString::toUtf8()\<close>: the bytes of the text.\<close>

definition toUtf8 :: "string \<Rightarrow> byte list" where
  "toUtf8 s = map (\<lambda>c. word_of_nat (of_char c)) s"

text \<open>\<open>QByteArray::toHex()\<close>: two lowercase hexadecimal digits for each byte.\<close>

definition hex_digit :: "byte \<Rightarrow> char" where
  "hex_digit n = ''0123456789abcdef'' ! unat (n AND 15)"

definition toHex :: "byte list \<Rightarrow> string" where
  "toHex bs = concat (map (\<lambda>b. [hex_digit (drop_bit 4 b), hex_digit b]) bs)"

text \<open>\<open>getProtectedHostname\<close> (lines 49-52).\<close>

definition getProtectedHostname :: "host \<Rightarrow> string" where
  "getProtectedHostname h = toHex (sha256 (toUtf8 (machineHostName h)))"

section \<open>Operating system label and release string\<close>

text \<open>\<open>getApiOS\<close> (lines 57-67), a switch on what \<open>os()\<close> returns.\<close>

definition getApiOS :: "host \<Rightarrow> string" where
  "getApiOS h =
     (case os h of
        MacOS \<Rightarrow> ''macos''
      | Windows \<Rightarrow> ''windows''
      | Linux \<Rightarrow> ''linux''
      | OtherOS n \<Rightarrow> ''linux'')"

text \<open>
  \<open>QString::arg(a1, a2)\<close>, the overload with two strings: the template is read once from
  left to right, marker \<open>%1\<close> is replaced by \<open>a1\<close> and marker \<open>%2\<close> by \<open>a2\<close>, and the
  inserted texts are not read again. Only the one-digit markers \<open>%1\<close> and \<open>%2\<close> are
  modelled, which is what the template of \<open>appVersion\<close> holds.
\<close>

fun arg :: "string \<Rightarrow> string \<Rightarrow> string \<Rightarrow> string" where
  "arg [] a1 a2 = []"
| "arg [c] a1 a2 = [c]"
| "arg (c # d # cs) a1 a2 =
     (if c = CHR ''%'' \<and> d = CHR ''1'' then a1 @ arg cs a1 a2
      else if c = CHR ''%'' \<and> d = CHR ''2'' then a2 @ arg cs a1 a2
      else c # arg (d # cs) a1 a2)"

text \<open>\<open>appVersion\<close> (lines 72-74).\<close>

definition appVersion :: "host \<Rightarrow> string \<Rightarrow> string" where
  "appVersion h version = arg ''%1-bridge@%2'' (getApiOS h) version"

section \<open>The sentry-native client\<close>

text \<open>
  The calls of the client's C interface that this file makes, each by its effect on the
  values, the options and the world above.
\<close>

definition LoggerName :: string where
  "LoggerName = ''bridge-gui''"

text \<open>
  Writing a key of an object: the first pair with that key gets the new value; when
  there is none, a new pair is put at the end.
\<close>

fun set_by_key :: "(string \<times> sentry_value_t) list \<Rightarrow> string \<Rightarrow> sentry_value_t
    \<Rightarrow> (string \<times> sentry_value_t) list" where
  "set_by_key [] k v = [(k, v)]"
| "set_by_key (p # ps) k v = (if fst p = k then (k, v) # ps else p # set_by_key ps k v)"

definition sentry_value_new_object :: sentry_value_t where
  "sentry_value_new_object = VObject []"

definition sentry_value_new_list :: sentry_value_t where
  "sentry_value_new_list = VList []"

definition sentry_value_new_string :: "string \<Rightarrow> sentry_value_t" where
  "sentry_value_new_string s = VString s"

text \<open>On a value that is not an object the call fails and changes nothing.\<close>

definition sentry_value_set_by_key :: "sentry_value_t \<Rightarrow> string \<Rightarrow> sentry_value_t
    \<Rightarrow> sentry_value_t" where
  "sentry_value_set_by_key value k v =
     (case value of VObject ps \<Rightarrow> VObject (set_by_key ps k v) | _ \<Rightarrow> value)"

definition sentry_value_get_by_key :: "sentry_value_t \<Rightarrow> string \<Rightarrow> sentry_value_t" where
  "sentry_value_get_by_key value k =
     (case value of
        VObject ps \<Rightarrow> (case map_of ps k of Some v \<Rightarrow> v | None \<Rightarrow> VNull)
      | _ \<Rightarrow> VNull)"

definition sentry_value_append :: "sentry_value_t \<Rightarrow> sentry_value_t \<Rightarrow> sentry_value_t" where
  "sentry_value_append value v = (case value of VList vs \<Rightarrow> VList (vs @ [v]) | _ \<Rightarrow> value)"

fun level_name :: "sentry_level_t \<Rightarrow> string" where
  "level_name SENTRY_LEVEL_DEBUG = ''debug''"
| "level_name SENTRY_LEVEL_WARNING = ''warning''"
| "level_name SENTRY_LEVEL_ERROR = ''error''"
| "level_name SENTRY_LEVEL_FATAL = ''fatal''"
| "level_name SENTRY_LEVEL_INFO = ''info''"

text \<open>A new event carries the identifier and the time the client gives it.\<close>

definition sentry_value_new_event :: "host \<Rightarrow> sentry_value_t" where
  "sentry_value_new_event h =
     (let rv = sentry_value_new_object;
          rv = sentry_value_set_by_key rv ''event_id'' (sentry_value_new_string (event_id_text h));
          rv = sentry_value_set_by_key rv ''timestamp'' (sentry_value_new_string (timestamp_text h));
          rv = sentry_value_set_by_key rv ''platform'' (sentry_value_new_string ''native'')
      in rv)"

definition sentry_value_new_message_event :: "host \<Rightarrow> sentry_level_t \<Rightarrow> string \<Rightarrow> string
    \<Rightarrow> sentry_value_t" where
  "sentry_value_new_message_event h level logger text =
     (let rv = sentry_value_new_event h;
          rv = sentry_value_set_by_key rv ''level'' (sentry_value_new_string (level_name level));
          rv = sentry_value_set_by_key rv ''logger'' (sentry_value_new_string logger);
          container = sentry_value_new_object;
          container = sentry_value_set_by_key container ''formatted'' (sentry_value_new_string text);
          rv = sentry_value_set_by_key rv ''message'' container
      in rv)"

definition sentry_value_new_exception :: "string \<Rightarrow> string \<Rightarrow> sentry_value_t" where
  "sentry_value_new_exception type val =
     (let exc = sentry_value_new_object;
          exc = sentry_value_set_by_key exc ''type'' (sentry_value_new_string type);
          exc = sentry_value_set_by_key exc ''value'' (sentry_value_new_string val)
      in exc)"

text \<open>
  The exception goes to the end of the list \<open>values\<close> of the event's object
  \<open>exception\<close>; the object and the list are made when the event has none.
\<close>

definition sentry_event_add_exception :: "sentry_value_t \<Rightarrow> sentry_value_t \<Rightarrow> sentry_value_t" where
  "sentry_event_add_exception event exception =
     (let exceptions = sentry_value_get_by_key event ''exception'';
          exceptions = (if exceptions = VNull then sentry_value_new_object else exceptions);
          values = sentry_value_get_by_key exceptions ''values'';
          values = (if values = VNull then sentry_value_new_list else values);
          values = sentry_value_append values exception;
          exceptions = sentry_value_set_by_key exceptions ''values'' values
      in sentry_value_set_by_key event ''exception'' exceptions)"

text \<open>
  What the client does with the scope when it captures an event, for the two parts of
  the scope that this file sets: the user is placed in an event that has none, and the
  tags are placed in an event that has none or else joined with the event's own, which
  win.
\<close>

definition scope_apply_to_event :: "world \<Rightarrow> sentry_value_t \<Rightarrow> sentry_value_t" where
  "scope_apply_to_event w event =
     (let event =
            (if sentry_value_get_by_key event ''user'' = VNull \<and> user w \<noteq> VNull
             then sentry_value_set_by_key event ''user'' (user w)
             else event);
          event_tags = sentry_value_get_by_key event ''tags''
      in case event_tags of
           VObject ps \<Rightarrow>
             sentry_value_set_by_key event ''tags''
               (VObject (foldl (\<lambda>merged (k, v). set_by_key merged k v) (tags w) ps))
         | _ \<Rightarrow> sentry_value_set_by_key event ''tags'' (VObject (tags w)))"

text \<open>
  \<open>sentry_capture_event\<close>: the event handed over is noted as it came, and captured with
  the scope on it; the call returns the identifier the client gives.
\<close>

definition sentry_capture_event :: "host \<Rightarrow> sentry_value_t \<Rightarrow> world \<Rightarrow> sentry_uuid_t \<times> world" where
  "sentry_capture_event h event w =
     (capture_id h event,
      w\<lparr>submitted := submitted w @ [event],
        captured := captured w @ [scope_apply_to_event w event]\<rparr>)"

definition sentry_set_tag :: "string \<Rightarrow> string \<Rightarrow> world \<Rightarrow> world" where
  "sentry_set_tag k v w = w\<lparr>tags := set_by_key (tags w) k (sentry_value_new_string v)\<rparr>"

definition sentry_set_user :: "sentry_value_t \<Rightarrow> world \<Rightarrow> world" where
  "sentry_set_user u w = w\<lparr>user := u\<rparr>"

definition sentry_options_new :: "host \<Rightarrow> sentry_options_t" where
  "sentry_options_new h = default_options h"

definition sentry_options_set_dsn :: "sentry_options_t \<Rightarrow> string \<Rightarrow> sentry_options_t" where
  "sentry_options_set_dsn opts s = opts\<lparr>dsn := Some s\<rparr>"

definition sentry_options_set_database_path :: "sentry_options_t \<Rightarrow> string \<Rightarrow> sentry_options_t" where
  "sentry_options_set_database_path opts s = opts\<lparr>database_path := Some s\<rparr>"

definition sentry_options_set_release :: "sentry_options_t \<Rightarrow> string \<Rightarrow> sentry_options_t" where
  "sentry_options_set_release opts s = opts\<lparr>release := Some s\<rparr>"

definition sentry_options_set_max_breadcrumbs :: "sentry_options_t \<Rightarrow> 64 word \<Rightarrow> sentry_options_t" where
  "sentry_options_set_max_breadcrumbs opts n = opts\<lparr>max_breadcrumbs := n\<rparr>"

definition sentry_options_set_environment :: "sentry_options_t \<Rightarrow> string \<Rightarrow> sentry_options_t" where
  "sentry_options_set_environment opts s = opts\<lparr>environment := Some s\<rparr>"

definition sentry_options_set_handler_path :: "sentry_options_t \<Rightarrow> string \<Rightarrow> sentry_options_t" where
  "sentry_options_set_handler_path opts s = opts\<lparr>handler_path := Some s\<rparr>"

text \<open>
  \<open>sentry_init\<close>: the call is recorded with its options; the client runs with them when
  the call returns 0 and there is no client when it returns anything else.
\<close>

definition sentry_init :: "host \<Rightarrow> sentry_options_t \<Rightarrow> world \<Rightarrow> 32 word \<times> world" where
  "sentry_init h opts w =
     (let rc = init_code h opts
      in (rc, w\<lparr>init_calls := init_calls w @ [opts],
                client := (if rc = 0 then Some opts else None)\<rparr>))"

section \<open>Initialisation, scope and reports\<close>

text \<open>\<open>newSentryOptions\<close> (lines 109-120).\<close>

definition newSentryOptions :: "host \<Rightarrow> string \<Rightarrow> string \<Rightarrow> sentry_options_t" where
  "newSentryOptions h sentryDNS cacheDir =
     (let sentryOptions = sentry_options_new h;
          sentryOptions = sentry_options_set_dsn sentryOptions sentryDNS;
          sentryOptions = sentry_options_set_database_path sentryOptions cacheDir;
          sentryOptions = sentry_options_set_release sentryOptions
                            (appVersion h (PROJECT_VER (build h)));
          sentryOptions = sentry_options_set_max_breadcrumbs sentryOptions 50;
          sentryOptions = sentry_options_set_environment sentryOptions
                            (PROJECT_BUILD_ENV (build h))
      in sentryOptions)"

text \<open>\<open>setSentryReportScope\<close> (lines 94-103).\<close>

definition setSentryReportScope :: "host \<Rightarrow> world \<Rightarrow> world" where
  "setSentryReportScope h w =
     (let w = sentry_set_tag ''OS'' (goos h) w;
          w = sentry_set_tag ''Client'' (PROJECT_FULL_NAME (build h)) w;
          w = sentry_set_tag ''Version'' (PROJECT_REVISION (build h)) w;
          w = sentry_set_tag ''HostArch'' (currentCpuArchitecture h) w;
          w = sentry_set_tag ''server_name'' (getProtectedHostname h) w;
          user = sentry_value_new_object;
          user = sentry_value_set_by_key user ''id''
                   (sentry_value_new_string (getProtectedHostname h))
      in sentry_set_user user w)"

text \<open>The line \<open>QTextStream(stderr) << text\<close>.\<close>

definition write_stderr :: "string \<Rightarrow> world \<Rightarrow> world" where
  "write_stderr s w = w\<lparr>err := err w @ s\<rparr>"

text \<open>\<open>initSentry\<close> (lines 80-89).\<close>

definition initSentry :: "host \<Rightarrow> world \<Rightarrow> world" where
  "initSentry h w =
     (let (cacheDir, w) = sentryCacheDir h w;
          sentryOptions = newSentryOptions h (PROJECT_DSN_SENTRY (build h)) cacheDir;
          sentryOptions =
            (if PROJECT_CRASHPAD_HANDLER_PATH (build h) \<noteq> []
             then sentry_options_set_handler_path sentryOptions
                    (PROJECT_CRASHPAD_HANDLER_PATH (build h))
             else sentryOptions);
          (rc, w) = sentry_init h sentryOptions w;
          w = (if rc \<noteq> 0 then write_stderr (''Failed to initialize sentry'' @ [CHR 0x0A]) w else w)
      in setSentryReportScope h w)"

text \<open>\<open>reportSentryEvent\<close> (lines 126-129).\<close>

definition reportSentryEvent :: "host \<Rightarrow> sentry_level_t \<Rightarrow> string \<Rightarrow> world
    \<Rightarrow> sentry_uuid_t \<times> world" where
  "reportSentryEvent h level message w =
     (let event = sentry_value_new_message_event h level LoggerName message
      in sentry_capture_event h event w)"

text \<open>\<open>reportSentryException\<close> (lines 135-139).\<close>

definition reportSentryException :: "host \<Rightarrow> sentry_level_t \<Rightarrow> string \<Rightarrow> string \<Rightarrow> string
    \<Rightarrow> world \<Rightarrow> sentry_uuid_t \<times> world" where
  "reportSentryException h level message exceptionType exception w =
     (let event = sentry_value_new_message_event h level LoggerName message;
          event = sentry_event_add_exception event
                    (sentry_value_new_exception exceptionType exception)
      in sentry_capture_event h event w)"

section \<open>The module as its callers see it\<close>

text \<open>
  The nine operations of the module, under the names the specification gives them, and
  what a call hands back: a value of the function's return type, or a failure, which is a
  C++ exception leaving the call or the end of the process. \<open>call\<close> runs one operation;
  no function of the file has a \<open>throw\<close>, an \<open>abort\<close> or an \<open>exit\<close>, so none of its
  branches is a failure.
\<close>

datatype operation =
    Initialize
  | SetReportScope
  | ResolveCacheDirectory
  | HashedHostname
  | ApiOsLabel
  | FormatVersion string
  | BuildOptions string string
  | ReportEvent sentry_level_t string
  | ReportException sentry_level_t string string string

datatype failure = Exception string | Abort

datatype result = Void | Text string | Options sentry_options_t | EventId sentry_uuid_t

definition call :: "host \<Rightarrow> operation \<Rightarrow> world \<Rightarrow> (failure + result) \<times> world" where
  "call h operation w =
     (case operation of
        Initialize \<Rightarrow> (Inr Void, initSentry h w)
      | SetReportScope \<Rightarrow> (Inr Void, setSentryReportScope h w)
      | ResolveCacheDirectory \<Rightarrow>
          (let (path, w') = sentryCacheDir h w in (Inr (Text path), w'))
      | HashedHostname \<Rightarrow> (Inr (Text (getProtectedHostname h)), w)
      | ApiOsLabel \<Rightarrow> (Inr (Text (getApiOS h)), w)
      | FormatVersion version \<Rightarrow> (Inr (Text (appVersion h version)), w)
      | BuildOptions sentryDNS cacheDir \<Rightarrow>
          (Inr (Options (newSentryOptions h sentryDNS cacheDir)), w)
      | ReportEvent level message \<Rightarrow>
          (let (uuid, w') = reportSentryEvent h level message w in (Inr (EventId uuid), w'))
      | ReportException level message exceptionType exception \<Rightarrow>
          (let (uuid, w') = reportSentryException h level message exceptionType exception w
           in (Inr (EventId uuid), w')))"

text \<open>A sequence of calls, each in the world the one before left.\<close>

fun calls :: "host \<Rightarrow> operation list \<Rightarrow> world \<Rightarrow> world" where
  "calls h [] w = w"
| "calls h (operation # operations) w = calls h operations (snd (call h operation w))"

text \<open>The operations that hand an event to the client.\<close>

fun is_report :: "operation \<Rightarrow> bool" where
  "is_report (ReportEvent level message) = True"
| "is_report (ReportException level message exceptionType exception) = True"
| "is_report operation = False"

section \<open>A sample machine\<close>

text \<open>
  A Linux build whose telemetry client refuses to start, on a machine where the user-data
  directory cannot be created; the properties below are run on it.
\<close>

definition sample_build :: BuildConfig where
  "sample_build =
     \<lparr>PROJECT_DSN_SENTRY = ''https://key@sentry.invalid/7'',
      PROJECT_CRASHPAD_HANDLER_PATH = ''/opt/bridge/crashpad_handler'',
      PROJECT_FULL_NAME = ''Proton Mail Bridge'',
      PROJECT_REVISION = ''0a1b2c3'',
      PROJECT_VER = ''1.2.3'',
      PROJECT_BUILD_ENV = ''dev''\<rparr>"

definition sample_host :: host where
  "sample_host =
     \<lparr>build = sample_build,
      os = Linux,
      goos = ''linux'',
      userDataDir = ''/home/u/bridge'',
      machineHostName = ''abc'',
      currentCpuArchitecture = ''x86_64'',
      absolutePath = (\<lambda>d. d),
      default_options =
        \<lparr>dsn = None, database_path = None, release = None, max_breadcrumbs = 100,
         environment = None, handler_path = None\<rparr>,
      init_code = (\<lambda>opts. 1),
      event_id_text = ''4c035558-6b9f-4d9c-8c0e-2f4fbd4a3b11'',
      timestamp_text = ''2023-01-01T00:00:00Z'',
      capture_id = (\<lambda>event. 7)\<rparr>"

definition sample_world :: world where
  "sample_world =
     \<lparr>dirs = {''/home''},
      denied = {''/home/u''},
      err = [],
      init_calls = [],
      client = None,
      tags = [],
      user = VNull,
      submitted = [],
      captured = []\<rparr>"

section \<open>Lemmas\<close>

subsection \<open>Digest and hexadecimal text\<close>

lemma length_be32: "length (be32 x) = 4"
  by (simp add: be32_def)

lemma length_digest_bytes: "length (digest_bytes s) = 32"
  by (induction s rule: digest_bytes.induct) (simp add: length_be32)

lemma length_sha256: "length (sha256 m) = 32"
  by (simp add: sha256_def Let_def length_digest_bytes)

lemma length_toHex: "length (toHex bs) = 2 * length bs"
  by (induction bs) (simp_all add: toHex_def)

lemma hex_digit_lowercase: "hex_digit n \<in> set ''0123456789abcdef''"
proof -
  have "unat (n AND 15) \<le> unat (15 :: byte)"
    by (rule word_and_le1 [THEN word_le_nat_alt [THEN iffD1]])
  then have "unat (n AND 15) < length ''0123456789abcdef''"
    by simp
  then show ?thesis
    unfolding hex_digit_def by (rule nth_mem)
qed

lemma set_toHex: "set (toHex bs) \<subseteq> set ''0123456789abcdef''"
  using hex_digit_lowercase by (induction bs) (simp_all add: toHex_def)

lemma toUtf8_bytes: "map unat (toUtf8 s) = map of_char s"
proof -
  have "unat (word_of_nat (of_char c) :: byte) = of_char c" for c
  proof -
    have "(of_char c :: nat) < 2 ^ LENGTH(8)"
      by simp
    then show ?thesis
      by (simp add: unat_of_nat take_bit_nat_eq_self)
  qed
  then show ?thesis
    by (simp add: toUtf8_def)
qed

text \<open>
  Known answers: the digests of the empty message, of the three bytes \<open>abc\<close> and of a
  message of 56 bytes, which takes two blocks, as FIPS 180-4 and every SHA-256 tool give
  them.
\<close>

lemma sha256_two_blocks:
  "toHex (sha256 (toUtf8 ''abcdbcdecdefdefgefghfghighijhijkijkljklmklmnlmnomnopnopq'')) =
     ''248d6a61d20638b8e5c026930c3e6039a33ce45964ff2167f6ecedd419db06c1''"
  by code_simp

lemma sha256_empty:
  "toHex (sha256 (toUtf8 [])) =
     ''e3b0c44298fc1c149afbf4c8996fb92427ae41e4649b934ca495991b7852b855''"
  by code_simp

lemma sha256_abc:
  "toHex (sha256 (toUtf8 ''abc'')) =
     ''ba7816bf8f01cfea414140de5dae2223b00361a396177a9cb410ff61f20015ad''"
  by code_simp

lemma sample_digest:
  "getProtectedHostname sample_host =
     ''ba7816bf8f01cfea414140de5dae2223b00361a396177a9cb410ff61f20015ad''"
  by (simp add: getProtectedHostname_def sample_host_def sha256_abc)

subsection \<open>Objects as key/value pairs\<close>

lemma map_of_set_by_key:
  "map_of (set_by_key ps k v) k' = (if k' = k then Some v else map_of ps k')"
  by (induction ps) auto

lemma set_by_key_same: "map_of ps k = Some v \<Longrightarrow> set_by_key ps k v = ps"
  by (induction ps) (auto split: if_splits)

lemma keys_set_by_key:
  "map fst (set_by_key ps k v) = (if k \<in> set (map fst ps) then map fst ps else map fst ps @ [k])"
  by (induction ps) auto

lemma distinct_set_by_key:
  "distinct (map fst ps) \<Longrightarrow> distinct (map fst (set_by_key ps k v))"
  by (simp add: keys_set_by_key)

lemma key_set_by_key: "k \<in> set (map fst (set_by_key ps k v))"
  by (simp add: keys_set_by_key)

lemma key_kept: "k' \<in> set (map fst ps) \<Longrightarrow> k' \<in> set (map fst (set_by_key ps k v))"
  by (simp add: keys_set_by_key)

lemma no_pair_without_key: "k \<notin> set (map fst ps) \<Longrightarrow> filter (\<lambda>p. fst p = k) ps = []"
  by (induction ps) auto

lemma one_pair_per_key:
  "distinct (map fst ps) \<Longrightarrow> k \<in> set (map fst ps) \<Longrightarrow> length (filter (\<lambda>p. fst p = k) ps) = 1"
proof (induction ps)
  case Nil
  then show ?case by simp
next
  case (Cons p ps)
  show ?case
  proof (cases "fst p = k")
    case True
    with Cons.prems have "k \<notin> set (map fst ps)"
      by simp
    then have "filter (\<lambda>q. fst q = k) ps = []"
      by (rule no_pair_without_key)
    with True show ?thesis by simp
  next
    case False
    with Cons show ?thesis by auto
  qed
qed

subsection \<open>Directories\<close>

lemma mkdirs_frame: "snd (mkdirs ds w) = w\<lparr>dirs := dirs (snd (mkdirs ds w))\<rparr>"
proof (induction ds arbitrary: w)
  case Nil
  show ?case by simp
next
  case (Cons d ds)
  let ?w = "w\<lparr>dirs := insert d (dirs w)\<rparr>"
  have "snd (mkdirs ds ?w) = ?w\<lparr>dirs := dirs (snd (mkdirs ds ?w))\<rparr>"
    by (rule Cons.IH)
  then have new: "snd (mkdirs ds ?w) = w\<lparr>dirs := dirs (snd (mkdirs ds ?w))\<rparr>"
    by simp
  show ?case
  proof (cases "d \<in> dirs w")
    case True
    with Cons.IH [of w] show ?thesis by simp
  next
    case False
    with new show ?thesis by (cases "d \<in> denied w") simp_all
  qed
qed

lemma mkdirs_keeps: "d \<in> dirs w \<Longrightarrow> d \<in> dirs (snd (mkdirs ds w))"
  by (induction ds arbitrary: w) auto

lemma mkdirs_again: "mkdirs ds (snd (mkdirs ds w)) = mkdirs ds w"
proof (induction ds arbitrary: w)
  case Nil
  show ?case by simp
next
  case (Cons d ds)
  show ?case
  proof (cases "d \<in> dirs w")
    case True
    then have "d \<in> dirs (snd (mkdirs ds w))"
      by (rule mkdirs_keeps)
    with True Cons.IH [of w] show ?thesis by simp
  next
    case absent: False
    show ?thesis
    proof (cases "d \<in> denied w")
      case True
      with absent show ?thesis by simp
    next
      case False
      let ?w = "w\<lparr>dirs := insert d (dirs w)\<rparr>"
      have "d \<in> dirs (snd (mkdirs ds ?w))"
        by (rule mkdirs_keeps) simp
      with absent False Cons.IH [of ?w] show ?thesis by simp
    qed
  qed
qed

lemma mkpath_frame: "snd (mkpath p w) = w\<lparr>dirs := dirs (snd (mkpath p w))\<rparr>"
  using mkdirs_frame [of "parents p @ [p]" w] by (simp add: mkpath_def)

lemma mkpath_existing: "p \<in> dirs w \<Longrightarrow> mkpath p w = (True, w)"
  by (simp add: mkpath_def)

lemma mkpath_again: "snd (mkpath p (snd (mkpath p w))) = snd (mkpath p w)"
proof (cases "p \<in> dirs (snd (mkpath p w))")
  case True
  then show ?thesis by (simp add: mkpath_existing)
next
  case False
  then have "p \<notin> dirs w"
    by (auto simp: mkpath_def)
  with False show ?thesis
    by (simp add: mkpath_def mkdirs_again)
qed

lemma sentryCacheDir_path:
  "fst (sentryCacheDir h w) = absoluteFilePath h (userDataDir h) ''sentry_cache''"
  by (simp add: sentryCacheDir_def Let_def split: prod.splits)

lemma sentryCacheDir_world:
  "snd (sentryCacheDir h w) = snd (mkpath (absoluteFilePath h (userDataDir h) ''sentry_cache'') w)"
  by (simp add: sentryCacheDir_def Let_def split: prod.splits)

lemma cache_path_joined:
  "absoluteFilePath h dir ''sentry_cache'' =
     (let d = absolutePath h dir
      in if d \<noteq> [] \<and> last d = CHR ''/'' then d @ ''sentry_cache'' else d @ ''/sentry_cache'')"
  by (simp add: absoluteFilePath_def Let_def)

lemma sample_cache_path:
  "absoluteFilePath sample_host (userDataDir sample_host) ''sentry_cache'' =
     ''/home/u/bridge/sentry_cache''"
  by (simp add: absoluteFilePath_def sample_host_def)

lemma sample_parents:
  "parents ''/home/u/bridge/sentry_cache'' = [''/home'', ''/home/u'', ''/home/u/bridge'']"
  by code_simp

lemma sample_mkpath_refused:
  "mkpath ''/home/u/bridge/sentry_cache'' sample_world = (False, sample_world)"
  by (simp add: mkpath_def sample_parents sample_world_def)

lemma sample_mkpath_created:
  "mkpath ''/home/u/bridge/sentry_cache'' (sample_world\<lparr>denied := {}\<rparr>) =
     (True, sample_world\<lparr>dirs := {''/home/u/bridge/sentry_cache'', ''/home/u/bridge'',
                                     ''/home/u'', ''/home''},
                         denied := {}\<rparr>)"
  by (simp add: mkpath_def sample_parents sample_world_def)

subsection \<open>Scope, options and initialisation\<close>

lemma setSentryReportScope_tags:
  "tags (setSentryReportScope h w) =
     set_by_key (set_by_key (set_by_key (set_by_key (set_by_key (tags w)
       ''OS'' (VString (goos h)))
       ''Client'' (VString (PROJECT_FULL_NAME (build h))))
       ''Version'' (VString (PROJECT_REVISION (build h))))
       ''HostArch'' (VString (currentCpuArchitecture h)))
       ''server_name'' (VString (getProtectedHostname h))"
  by (simp add: setSentryReportScope_def sentry_set_tag_def sentry_set_user_def
      sentry_value_new_string_def)

lemma setSentryReportScope_user:
  "user (setSentryReportScope h w) = VObject [(''id'', VString (getProtectedHostname h))]"
  by (simp add: setSentryReportScope_def sentry_set_tag_def sentry_set_user_def
      sentry_value_new_string_def sentry_value_new_object_def sentry_value_set_by_key_def)

lemma setSentryReportScope_world:
  "setSentryReportScope h w =
     w\<lparr>tags := tags (setSentryReportScope h w), user := user (setSentryReportScope h w)\<rparr>"
  by (simp add: setSentryReportScope_def sentry_set_tag_def sentry_set_user_def)

lemma setSentryReportScope_twice:
  "setSentryReportScope h (setSentryReportScope h w) = setSentryReportScope h w"
proof -
  have "tags (setSentryReportScope h (setSentryReportScope h w)) = tags (setSentryReportScope h w)"
    by (simp add: setSentryReportScope_tags map_of_set_by_key set_by_key_same)
  then show ?thesis
    by (subst setSentryReportScope_world, subst (3) setSentryReportScope_world)
       (simp add: setSentryReportScope_user)
qed

lemma setSentryReportScope_frame:
  "init_calls (setSentryReportScope h w) = init_calls w"
  "err (setSentryReportScope h w) = err w"
  "client (setSentryReportScope h w) = client w"
  "dirs (setSentryReportScope h w) = dirs w"
  "denied (setSentryReportScope h w) = denied w"
  "submitted (setSentryReportScope h w) = submitted w"
  "captured (setSentryReportScope h w) = captured w"
  by (subst setSentryReportScope_world, simp)+

lemma newSentryOptions_record:
  "newSentryOptions h d c =
     (default_options h)\<lparr>dsn := Some d, database_path := Some c,
        release := Some (appVersion h (PROJECT_VER (build h))), max_breadcrumbs := 50,
        environment := Some (PROJECT_BUILD_ENV (build h))\<rparr>"
  by (simp add: newSentryOptions_def sentry_options_new_def sentry_options_set_dsn_def
      sentry_options_set_database_path_def sentry_options_set_release_def
      sentry_options_set_max_breadcrumbs_def sentry_options_set_environment_def)

lemma initSentry_steps:
  "initSentry h w =
     (let path = fst (sentryCacheDir h w);
          built = newSentryOptions h (PROJECT_DSN_SENTRY (build h)) path;
          handler = PROJECT_CRASHPAD_HANDLER_PATH (build h);
          opts = (if handler \<noteq> [] then built\<lparr>handler_path := Some handler\<rparr> else built);
          rc = init_code h opts
      in setSentryReportScope h
           ((snd (sentryCacheDir h w))
              \<lparr>init_calls := init_calls w @ [opts],
               client := (if rc = 0 then Some opts else None),
               err := (if rc \<noteq> 0 then err w @ ''Failed to initialize sentry'' @ [CHR 0x0A]
                        else err w)\<rparr>))"
proof -
  define p where "p = fst (sentryCacheDir h w)"
  define w1 where "w1 = snd (sentryCacheDir h w)"
  have sc: "sentryCacheDir h w = (p, w1)"
    by (simp add: p_def w1_def)
  have "w1 = w\<lparr>dirs := dirs w1\<rparr>"
    unfolding w1_def sentryCacheDir_world by (rule mkpath_frame)
  then have fields: "err w = err w1" "init_calls w = init_calls w1"
    by (metis world.select_convs world.update_convs world.surjective)+
  show ?thesis
    by (simp add: initSentry_def sc sentry_init_def write_stderr_def Let_def fields
        sentry_options_set_handler_path_def)
qed

lemma sample_release: "appVersion sample_host (PROJECT_VER (build sample_host)) = ''linux-bridge@1.2.3''"
  by (simp add: appVersion_def getApiOS_def sample_host_def sample_build_def)

lemma sample_options:
  "newSentryOptions sample_host (PROJECT_DSN_SENTRY (build sample_host))
       ''/home/u/bridge/sentry_cache'' =
     \<lparr>dsn = Some ''https://key@sentry.invalid/7'',
      database_path = Some ''/home/u/bridge/sentry_cache'',
      release = Some ''linux-bridge@1.2.3'',
      max_breadcrumbs = 50,
      environment = Some ''dev'',
      handler_path = None\<rparr>"
  by (simp add: newSentryOptions_record sample_release) (simp add: sample_host_def sample_build_def)

subsection \<open>Events\<close>

lemma message_event_pairs:
  "sentry_value_new_message_event h level logger text =
     VObject [(''event_id'', VString (event_id_text h)),
              (''timestamp'', VString (timestamp_text h)),
              (''platform'', VString ''native''),
              (''level'', VString (level_name level)),
              (''logger'', VString logger),
              (''message'', VObject [(''formatted'', VString text)])]"
  by (simp add: sentry_value_new_message_event_def sentry_value_new_event_def
      sentry_value_new_object_def sentry_value_new_string_def sentry_value_set_by_key_def)

lemma exception_pairs:
  "sentry_value_new_exception t v = VObject [(''type'', VString t), (''value'', VString v)]"
  by (simp add: sentry_value_new_exception_def sentry_value_new_object_def
      sentry_value_new_string_def sentry_value_set_by_key_def)

lemma add_exception_to_message_event:
  "sentry_event_add_exception (sentry_value_new_message_event h level logger text) exc =
     sentry_value_set_by_key (sentry_value_new_message_event h level logger text)
       ''exception'' (VObject [(''values'', VList [exc])])"
  by (simp add: message_event_pairs sentry_event_add_exception_def sentry_value_get_by_key_def
      sentry_value_set_by_key_def sentry_value_new_object_def sentry_value_new_list_def
      sentry_value_append_def)

subsection \<open>Calls\<close>

lemma host_init_code_irrelevant:
  "getProtectedHostname (h\<lparr>init_code := code\<rparr>) = getProtectedHostname h"
  "getApiOS (h\<lparr>init_code := code\<rparr>) = getApiOS h"
  "appVersion (h\<lparr>init_code := code\<rparr>) v = appVersion h v"
  "absoluteFilePath (h\<lparr>init_code := code\<rparr>) d f = absoluteFilePath h d f"
  "newSentryOptions (h\<lparr>init_code := code\<rparr>) d c = newSentryOptions h d c"
  "sentry_value_new_message_event (h\<lparr>init_code := code\<rparr>) l g m = sentry_value_new_message_event h l g m"
  "setSentryReportScope (h\<lparr>init_code := code\<rparr>) w = setSentryReportScope h w"
  by (simp_all add: getProtectedHostname_def getApiOS_def appVersion_def absoluteFilePath_def
      newSentryOptions_record message_event_pairs setSentryReportScope_def)

lemma call_result_unaffected:
  "fst (call (h\<lparr>init_code := code\<rparr>) operation (w\<lparr>denied := refused\<rparr>)) = fst (call h operation w)"
proof (cases operation)
  case ResolveCacheDirectory
  have "fst (call h' ResolveCacheDirectory w') = Inr (Text (fst (sentryCacheDir h' w')))" for h' w'
    by (simp add: call_def split: prod.splits)
  with ResolveCacheDirectory show ?thesis
    by (simp add: sentryCacheDir_path host_init_code_irrelevant)
next
  case (ReportEvent level message)
  then show ?thesis
    by (simp add: call_def reportSentryEvent_def sentry_capture_event_def Let_def
        host_init_code_irrelevant)
next
  case (ReportException level message exceptionType exception)
  then show ?thesis
    by (simp add: call_def reportSentryException_def sentry_capture_event_def Let_def
        host_init_code_irrelevant)
qed (simp_all add: call_def host_init_code_irrelevant)

lemma setSentryReportScope_past_updates:
  "setSentryReportScope h (w\<lparr>client := c\<rparr>) = (setSentryReportScope h w)\<lparr>client := c\<rparr>"
  "setSentryReportScope h (w\<lparr>err := e\<rparr>) = (setSentryReportScope h w)\<lparr>err := e\<rparr>"
  by (simp_all add: setSentryReportScope_def sentry_set_tag_def sentry_set_user_def)

lemma init_failure_observed:
  "initSentry (h\<lparr>init_code := (\<lambda>opts. rc)\<rparr>) w =
     (initSentry (h\<lparr>init_code := (\<lambda>opts. 0)\<rparr>) w)
       \<lparr>client := (if rc = 0 then client (initSentry (h\<lparr>init_code := (\<lambda>opts. 0)\<rparr>) w) else None),
        err := (if rc = 0 then err w else err w @ ''Failed to initialize sentry'' @ [CHR 0x0A])\<rparr>"
proof -
  have path: "sentryCacheDir (h\<lparr>init_code := code\<rparr>) w = sentryCacheDir h w" for code
    by (simp add: sentryCacheDir_def host_init_code_irrelevant)
  show ?thesis
    by (simp add: initSentry_steps [of "h\<lparr>init_code := code\<rparr>" for code] Let_def path
        host_init_code_irrelevant setSentryReportScope_past_updates setSentryReportScope_frame)
qed

lemma scope_established:
  "map_of (tags (setSentryReportScope h w)) ''server_name'' = Some (VString (getProtectedHostname h))"
  "user (setSentryReportScope h w) = VObject [(''id'', VString (getProtectedHostname h))]"
  by (simp_all add: setSentryReportScope_tags setSentryReportScope_user map_of_set_by_key)

lemma call_scope:
  "snd (call h operation w) =
     (case operation of
        Initialize \<Rightarrow> initSentry h w
      | SetReportScope \<Rightarrow> setSentryReportScope h w
      | ResolveCacheDirectory \<Rightarrow> w\<lparr>dirs := dirs (snd (sentryCacheDir h w))\<rparr>
      | ReportEvent level message \<Rightarrow>
          w\<lparr>submitted := submitted (snd (reportSentryEvent h level message w)),
            captured := captured (snd (reportSentryEvent h level message w))\<rparr>
      | ReportException level message exceptionType exception \<Rightarrow>
          w\<lparr>submitted :=
              submitted (snd (reportSentryException h level message exceptionType exception w)),
            captured :=
              captured (snd (reportSentryException h level message exceptionType exception w))\<rparr>
      | _ \<Rightarrow> w)"
proof (cases operation)
  case ResolveCacheDirectory
  have "snd (sentryCacheDir h w) = w\<lparr>dirs := dirs (snd (sentryCacheDir h w))\<rparr>"
    unfolding sentryCacheDir_world by (rule mkpath_frame)
  with ResolveCacheDirectory show ?thesis
    by (simp add: call_def split: prod.splits)
qed (simp_all add: call_def reportSentryEvent_def reportSentryException_def
      sentry_capture_event_def Let_def)

lemma call_keeps_scope:
  assumes "map_of (tags w) ''server_name'' = Some (VString (getProtectedHostname h))"
    and "user w = VObject [(''id'', VString (getProtectedHostname h))]"
  shows "map_of (tags (snd (call h operation w))) ''server_name'' =
           Some (VString (getProtectedHostname h))
         \<and> user (snd (call h operation w)) = VObject [(''id'', VString (getProtectedHostname h))]"
proof (cases operation)
  case Initialize
  have "\<exists>w'. initSentry h w = setSentryReportScope h w'"
    unfolding initSentry_steps Let_def by (rule exI) (rule refl)
  then obtain w' where "initSentry h w = setSentryReportScope h w'" ..
  with Initialize show ?thesis
    by (simp add: call_scope scope_established)
qed (simp_all add: call_scope scope_established assms)

lemma calls_keep_scope:
  "map_of (tags w) ''server_name'' = Some (VString (getProtectedHostname h)) \<Longrightarrow>
   user w = VObject [(''id'', VString (getProtectedHostname h))] \<Longrightarrow>
   map_of (tags (calls h operations w)) ''server_name'' = Some (VString (getProtectedHostname h))
   \<and> user (calls h operations w) = VObject [(''id'', VString (getProtectedHostname h))]"
proof (induction operations arbitrary: w)
  case Nil
  then show ?case by simp
next
  case (Cons operation operations)
  from call_keeps_scope [OF Cons.prems, of operation] show ?case
    by (simp add: Cons.IH)
qed

lemma scoped_message_event:
  assumes "user w = VObject [(''id'', x)]"
  shows "scope_apply_to_event w (sentry_value_new_message_event h level logger text) =
     VObject [(''event_id'', VString (event_id_text h)),
              (''timestamp'', VString (timestamp_text h)),
              (''platform'', VString ''native''),
              (''level'', VString (level_name level)),
              (''logger'', VString logger),
              (''message'', VObject [(''formatted'', VString text)]),
              (''user'', user w),
              (''tags'', VObject (tags w))]"
  by (simp add: message_event_pairs scope_apply_to_event_def sentry_value_get_by_key_def
      sentry_value_set_by_key_def assms)

lemma scoped_exception_event:
  assumes "user w = VObject [(''id'', x)]"
  shows "scope_apply_to_event w
           (sentry_event_add_exception (sentry_value_new_message_event h level logger text) exc) =
     VObject [(''event_id'', VString (event_id_text h)),
              (''timestamp'', VString (timestamp_text h)),
              (''platform'', VString ''native''),
              (''level'', VString (level_name level)),
              (''logger'', VString logger),
              (''message'', VObject [(''formatted'', VString text)]),
              (''exception'', VObject [(''values'', VList [exc])]),
              (''user'', user w),
              (''tags'', VObject (tags w))]"
  by (simp add: add_exception_to_message_event)
     (simp add: message_event_pairs scope_apply_to_event_def sentry_value_get_by_key_def
        sentry_value_set_by_key_def assms)

lemma initSentry_captured: "captured (initSentry h w) = captured w"
proof -
  have "snd (sentryCacheDir h w) = w\<lparr>dirs := dirs (snd (sentryCacheDir h w))\<rparr>"
    unfolding sentryCacheDir_world by (rule mkpath_frame)
  then have "captured (snd (sentryCacheDir h w)) = captured w"
    by (metis world.select_convs world.update_convs world.surjective)
  then show ?thesis
    by (subst initSentry_steps) (simp add: Let_def setSentryReportScope_frame)
qed

lemma call_reports:
  assumes "map_of (tags w) ''server_name'' = Some (VString d)"
    and "user w = VObject [(''id'', VString d)]"
  shows "\<exists>new. captured (snd (call h operation w)) = captured w @ new
           \<and> length new = (if is_report operation then 1 else 0)
           \<and> (\<forall>event \<in> set new.
                 sentry_value_get_by_key (sentry_value_get_by_key event ''tags'') ''server_name'' =
                   VString d
                 \<and> sentry_value_get_by_key (sentry_value_get_by_key event ''user'') ''id'' =
                   VString d)"
proof (cases operation)
  case Initialize
  then show ?thesis
    by (simp add: call_scope initSentry_captured)
next
  case SetReportScope
  then show ?thesis
    by (simp add: call_scope setSentryReportScope_frame)
next
  case (ReportEvent level message)
  let ?event = "scope_apply_to_event w (sentry_value_new_message_event h level LoggerName message)"
  have "captured (snd (call h operation w)) = captured w @ [?event]"
    by (simp add: ReportEvent call_def reportSentryEvent_def sentry_capture_event_def Let_def)
  moreover have
    "sentry_value_get_by_key (sentry_value_get_by_key ?event ''tags'') ''server_name'' = VString d
     \<and> sentry_value_get_by_key (sentry_value_get_by_key ?event ''user'') ''id'' = VString d"
    unfolding scoped_message_event [OF assms(2)]
    by (simp add: sentry_value_get_by_key_def assms)
  ultimately show ?thesis
    using ReportEvent by simp
next
  case (ReportException level message exceptionType exception)
  let ?event = "scope_apply_to_event w
      (sentry_event_add_exception (sentry_value_new_message_event h level LoggerName message)
        (sentry_value_new_exception exceptionType exception))"
  have "captured (snd (call h operation w)) = captured w @ [?event]"
    by (simp add: ReportException call_def reportSentryException_def sentry_capture_event_def
        Let_def)
  moreover have
    "sentry_value_get_by_key (sentry_value_get_by_key ?event ''tags'') ''server_name'' = VString d
     \<and> sentry_value_get_by_key (sentry_value_get_by_key ?event ''user'') ''id'' = VString d"
    unfolding scoped_exception_event [OF assms(2)]
    by (simp add: sentry_value_get_by_key_def assms)
  ultimately show ?thesis
    using ReportException by simp
qed (simp_all add: call_scope)

lemma calls_report:
  assumes "map_of (tags w) ''server_name'' = Some (VString (getProtectedHostname h))"
    and "user w = VObject [(''id'', VString (getProtectedHostname h))]"
  shows "\<exists>new. captured (calls h operations w) = captured w @ new
           \<and> length new = length (filter is_report operations)
           \<and> (\<forall>event \<in> set new.
                 sentry_value_get_by_key (sentry_value_get_by_key event ''tags'') ''server_name'' =
                   VString (getProtectedHostname h)
                 \<and> sentry_value_get_by_key (sentry_value_get_by_key event ''user'') ''id'' =
                   VString (getProtectedHostname h))"
  using assms
proof (induction operations arbitrary: w)
  case Nil
  then show ?case by simp
next
  case (Cons operation operations)
  let ?w = "snd (call h operation w)"
  from call_reports [OF Cons.prems, of h operation]
  obtain first where first: "captured ?w = captured w @ first"
    "length first = (if is_report operation then 1 else 0)"
    "\<forall>event \<in> set first.
       sentry_value_get_by_key (sentry_value_get_by_key event ''tags'') ''server_name'' =
         VString (getProtectedHostname h)
       \<and> sentry_value_get_by_key (sentry_value_get_by_key event ''user'') ''id'' =
         VString (getProtectedHostname h)"
    by blast
  from call_keeps_scope [OF Cons.prems, of operation]
  have "map_of (tags ?w) ''server_name'' = Some (VString (getProtectedHostname h))"
    and "user ?w = VObject [(''id'', VString (getProtectedHostname h))]"
    by simp_all
  from Cons.IH [OF this]
  obtain rest where rest: "captured (calls h operations ?w) = captured ?w @ rest"
    "length rest = length (filter is_report operations)"
    "\<forall>event \<in> set rest.
       sentry_value_get_by_key (sentry_value_get_by_key event ''tags'') ''server_name'' =
         VString (getProtectedHostname h)
       \<and> sentry_value_get_by_key (sentry_value_get_by_key event ''user'') ''id'' =
         VString (getProtectedHostname h)"
    by blast
  have "captured (calls h (operation # operations) w) = captured w @ (first @ rest)"
    by (simp add: first(1) rest(1))
  moreover have "length (first @ rest) = length (filter is_report (operation # operations))"
    by (simp add: first(2) rest(2))
  moreover have "\<forall>event \<in> set (first @ rest).
       sentry_value_get_by_key (sentry_value_get_by_key event ''tags'') ''server_name'' =
         VString (getProtectedHostname h)
       \<and> sentry_value_get_by_key (sentry_value_get_by_key event ''user'') ''id'' =
         VString (getProtectedHostname h)"
    using first(3) rest(3) by auto
  ultimately show ?case
    by blast
qed

lemma digest_of_name:
  "getProtectedHostname (h\<lparr>machineHostName := name\<rparr>) = toHex (sha256 (toUtf8 name))"
  by (simp add: getProtectedHostname_def)

section \<open>Properties\<close>

text \<open>
  C1: whatever \<open>sentry_init\<close> returns, \<open>initSentry\<close> builds the options with
  \<open>newSentryOptions\<close>, sets the handler path on them exactly when the build-time handler
  path is not empty, and hands them to \<open>sentry_init\<close>, once. When the call returns a
  value other than 0, one line, \<open>Failed to initialize sentry\<close>, is written to standard
  error and nothing else is; the run goes on. In both cases the last step is
  \<open>setSentryReportScope\<close>, on the world the steps before left.
\<close>

theorem initSentry_sequence:
  "(let path = fst (sentryCacheDir h w);
        built = newSentryOptions h (PROJECT_DSN_SENTRY (build h)) path;
        handler = PROJECT_CRASHPAD_HANDLER_PATH (build h);
        opts = (if handler \<noteq> [] then sentry_options_set_handler_path built handler else built);
        rc = init_code h opts;
        line = ''Failed to initialize sentry'' @ [CHR 0x0A]
    in init_calls (initSentry h w) = init_calls w @ [opts]
       \<and> handler_path opts =
           (if handler \<noteq> [] then Some handler else handler_path (default_options h))
       \<and> err (initSentry h w) = (if rc \<noteq> 0 then err w @ line else err w)
       \<and> length (filter (\<lambda>c. c = CHR 0x0A) line) = 1
       \<and> client (initSentry h w) = (if rc = 0 then Some opts else None)
       \<and> initSentry h w =
           setSentryReportScope h
             ((snd (sentryCacheDir h w))
                \<lparr>init_calls := init_calls w @ [opts],
                 client := (if rc = 0 then Some opts else None),
                 err := (if rc \<noteq> 0 then err w @ line else err w)\<rparr>))"
  by (simp add: initSentry_steps Let_def setSentryReportScope_frame
      sentry_options_set_handler_path_def newSentryOptions_record)

theorem initSentry_sequence_witness:
  "PROJECT_CRASHPAD_HANDLER_PATH (build sample_host) \<noteq> []
   \<and> init_calls (initSentry sample_host sample_world) =
       [\<lparr>dsn = Some ''https://key@sentry.invalid/7'',
         database_path = Some ''/home/u/bridge/sentry_cache'',
         release = Some ''linux-bridge@1.2.3'',
         max_breadcrumbs = 50,
         environment = Some ''dev'',
         handler_path = Some ''/opt/bridge/crashpad_handler''\<rparr>]
   \<and> init_code sample_host (last (init_calls (initSentry sample_host sample_world))) = 1
   \<and> err (initSentry sample_host sample_world) = ''Failed to initialize sentry'' @ [CHR 0x0A]
   \<and> client (initSentry sample_host sample_world) = None
   \<and> map_of (tags (initSentry sample_host sample_world)) ''OS'' = Some (VString ''linux'')
   \<and> err (initSentry (sample_host\<lparr>init_code := (\<lambda>opts. 0)\<rparr>) sample_world) = []
   \<and> client (initSentry (sample_host\<lparr>init_code := (\<lambda>opts. 0)\<rparr>) sample_world) =
       Some (last (init_calls (initSentry sample_host sample_world)))"
proof -
  have path: "fst (sentryCacheDir h sample_world) = ''/home/u/bridge/sentry_cache''"
    and world: "snd (sentryCacheDir h sample_world) = sample_world"
    if "userDataDir h = ''/home/u/bridge''" and "absolutePath h = (\<lambda>d. d)" for h
    using that
    by (simp_all add: sentryCacheDir_def absoluteFilePath_def sample_mkpath_refused)
  have host: "userDataDir sample_host = ''/home/u/bridge''" "absolutePath sample_host = (\<lambda>d. d)"
    "init_code sample_host = (\<lambda>opts. 1)" "build sample_host = sample_build"
    "goos sample_host = ''linux''"
    by (simp_all add: sample_host_def)
  have empty: "init_calls sample_world = []" "err sample_world = []"
    by (simp_all add: sample_world_def)
  have handler: "PROJECT_CRASHPAD_HANDLER_PATH sample_build = ''/opt/bridge/crashpad_handler''"
    by (simp add: sample_build_def)
  show ?thesis
    using initSentry_sequence [of sample_host sample_world]
      initSentry_sequence [of "sample_host\<lparr>init_code := (\<lambda>opts. 0)\<rparr>" sample_world]
    by (simp add: Let_def path world host empty handler sample_options [unfolded host]
        sentry_options_set_handler_path_def setSentryReportScope_tags map_of_set_by_key
        host_init_code_irrelevant setSentryReportScope_frame)
qed

text \<open>
  C3: for every OS family, \<open>getApiOS\<close> returns one of the three labels \<open>macos\<close>,
  \<open>windows\<close>, \<open>linux\<close>: \<open>macos\<close> for the macOS family, \<open>windows\<close> for the Windows
  family, \<open>linux\<close> for the Linux family and for every other value.
\<close>

theorem getApiOS_labels:
  "getApiOS h \<in> {''macos'', ''windows'', ''linux''}
   \<and> getApiOS (h\<lparr>os := MacOS\<rparr>) = ''macos''
   \<and> getApiOS (h\<lparr>os := Windows\<rparr>) = ''windows''
   \<and> getApiOS (h\<lparr>os := Linux\<rparr>) = ''linux''
   \<and> getApiOS (h\<lparr>os := OtherOS n\<rparr>) = ''linux''
   \<and> (getApiOS h = ''linux'') = (os h \<noteq> MacOS \<and> os h \<noteq> Windows)"
  by (cases "os h") (simp_all add: getApiOS_def)

text \<open>
  C4: \<open>getProtectedHostname\<close> is a function of the host name alone: two hosts with the
  same name get the same result. For every host name the result has 64 characters, each a
  lowercase hexadecimal digit, and it is the hexadecimal form of the SHA-256 digest of the
  name's bytes, a digest of 256 bits: the bytes hashed are the characters of the name, and
  the empty name, the name \<open>abc\<close> and a name of 56 characters get the digests that
  SHA-256 has for them.
\<close>

theorem getProtectedHostname_digest:
  "length (getProtectedHostname h) = 64
   \<and> set (getProtectedHostname h) \<subseteq> set ''0123456789abcdef''
   \<and> getProtectedHostname h = toHex (sha256 (toUtf8 (machineHostName h)))
   \<and> 8 * length (sha256 (toUtf8 (machineHostName h))) = 256
   \<and> (machineHostName h' = machineHostName h
        \<longrightarrow> getProtectedHostname h' = getProtectedHostname h)
   \<and> map unat (toUtf8 (machineHostName h)) = map of_char (machineHostName h)
   \<and> getProtectedHostname (h\<lparr>machineHostName := []\<rparr>) =
       ''e3b0c44298fc1c149afbf4c8996fb92427ae41e4649b934ca495991b7852b855''
   \<and> getProtectedHostname (h\<lparr>machineHostName := ''abc''\<rparr>) =
       ''ba7816bf8f01cfea414140de5dae2223b00361a396177a9cb410ff61f20015ad''
   \<and> getProtectedHostname
         (h\<lparr>machineHostName := ''abcdbcdecdefdefgefghfghighijhijkijkljklmklmnlmnomnopnopq''\<rparr>) =
       ''248d6a61d20638b8e5c026930c3e6039a33ce45964ff2167f6ecedd419db06c1''"
proof -
  have "set (getProtectedHostname h) \<subseteq> set ''0123456789abcdef''"
    unfolding getProtectedHostname_def by (rule set_toHex)
  moreover have "length (getProtectedHostname h) = 64"
    by (simp add: getProtectedHostname_def length_toHex length_sha256)
  ultimately show ?thesis
    by (simp add: digest_of_name sha256_empty sha256_abc sha256_two_blocks toUtf8_bytes)
       (simp add: getProtectedHostname_def length_sha256)
qed

theorem getProtectedHostname_digest_witness:
  "machineHostName (sample_host\<lparr>os := Windows, userDataDir := ''C:/Users/u''\<rparr>) =
     machineHostName sample_host
   \<and> getProtectedHostname (sample_host\<lparr>os := Windows, userDataDir := ''C:/Users/u''\<rparr>) =
       ''ba7816bf8f01cfea414140de5dae2223b00361a396177a9cb410ff61f20015ad''
   \<and> getProtectedHostname sample_host =
       ''ba7816bf8f01cfea414140de5dae2223b00361a396177a9cb410ff61f20015ad''
   \<and> length (getProtectedHostname sample_host) = 64
   \<and> machineHostName (sample_host\<lparr>machineHostName := []\<rparr>) \<noteq> machineHostName sample_host
   \<and> getProtectedHostname (sample_host\<lparr>machineHostName := []\<rparr>) =
       ''e3b0c44298fc1c149afbf4c8996fb92427ae41e4649b934ca495991b7852b855''
   \<and> getProtectedHostname (sample_host\<lparr>machineHostName := []\<rparr>) \<noteq>
       getProtectedHostname sample_host"
proof -
  let ?other = "sample_host\<lparr>os := Windows, userDataDir := ''C:/Users/u''\<rparr>"
  note digest = getProtectedHostname_digest [of sample_host ?other]
  have same: "machineHostName ?other = machineHostName sample_host"
    by simp
  have name: "machineHostName sample_host = ''abc''"
    by (simp add: sample_host_def)
  have abc: "sample_host\<lparr>machineHostName := ''abc''\<rparr> = sample_host"
    by (simp add: sample_host_def)
  from digest have known:
    "getProtectedHostname (sample_host\<lparr>machineHostName := []\<rparr>) =
       ''e3b0c44298fc1c149afbf4c8996fb92427ae41e4649b934ca495991b7852b855''"
    "getProtectedHostname (sample_host\<lparr>machineHostName := ''abc''\<rparr>) =
       ''ba7816bf8f01cfea414140de5dae2223b00361a396177a9cb410ff61f20015ad''"
    by blast+
  from digest same have "getProtectedHostname ?other = getProtectedHostname sample_host"
    by blast
  moreover from digest have "length (getProtectedHostname sample_host) = 64"
    by blast
  ultimately show ?thesis
    using known by (simp add: abc name)
qed

text \<open>
  C5: \<open>sentryCacheDir\<close> returns the entry \<open>sentry_cache\<close> of the user-data directory by its
  absolute path, for every user-data directory; for one that is its own absolute path and
  does not end with a separator this is the directory followed by \<open>/sentry_cache\<close>. A
  second call returns the same path and leaves the world as the first call left it; a
  directory that exists at the path leaves the whole world unchanged; and when the
  directory cannot be created the path is returned all the same.
\<close>

theorem sentryCacheDir_idempotent:
  "fst (sentryCacheDir h w) =
     (let d = absolutePath h (userDataDir h)
      in if d \<noteq> [] \<and> last d = CHR ''/'' then d @ ''sentry_cache'' else d @ ''/sentry_cache'')
   \<and> (absolutePath h (userDataDir h) = userDataDir h
          \<and> userDataDir h \<noteq> [] \<and> last (userDataDir h) \<noteq> CHR ''/''
        \<longrightarrow> fst (sentryCacheDir h w) = userDataDir h @ ''/sentry_cache'')
   \<and> fst (sentryCacheDir h (snd (sentryCacheDir h w))) = fst (sentryCacheDir h w)
   \<and> snd (sentryCacheDir h (snd (sentryCacheDir h w))) = snd (sentryCacheDir h w)
   \<and> (fst (sentryCacheDir h w) \<in> dirs w \<longrightarrow> snd (sentryCacheDir h w) = w)
   \<and> (\<not> fst (mkpath (fst (sentryCacheDir h w)) w)
        \<longrightarrow> sentryCacheDir h w =
              (absoluteFilePath h (userDataDir h) ''sentry_cache'',
               w\<lparr>dirs := dirs (snd (sentryCacheDir h w))\<rparr>))"
proof -
  let ?p = "absoluteFilePath h (userDataDir h) ''sentry_cache''"
  have world: "snd (sentryCacheDir h w) = w\<lparr>dirs := dirs (snd (sentryCacheDir h w))\<rparr>"
    unfolding sentryCacheDir_world by (rule mkpath_frame)
  have pair: "sentryCacheDir h w = (?p, snd (sentryCacheDir h w))"
    by (simp add: prod_eq_iff sentryCacheDir_path)
  have "?p \<in> dirs w \<Longrightarrow> snd (sentryCacheDir h w) = w"
    by (simp add: sentryCacheDir_world mkpath_existing)
  moreover have "snd (sentryCacheDir h (snd (sentryCacheDir h w))) = snd (sentryCacheDir h w)"
    by (simp add: sentryCacheDir_world mkpath_again)
  moreover have "sentryCacheDir h w = (?p, w\<lparr>dirs := dirs (snd (sentryCacheDir h w))\<rparr>)"
    using pair world by simp
  ultimately show ?thesis
    by (simp add: sentryCacheDir_path cache_path_joined Let_def)
qed

theorem sentryCacheDir_idempotent_witness:
  "absolutePath sample_host (userDataDir sample_host) = userDataDir sample_host
   \<and> userDataDir sample_host \<noteq> [] \<and> last (userDataDir sample_host) \<noteq> CHR ''/''
   \<and> \<not> fst (mkpath (fst (sentryCacheDir sample_host sample_world)) sample_world)
   \<and> sentryCacheDir sample_host sample_world = (''/home/u/bridge/sentry_cache'', sample_world)
   \<and> (let created = snd (sentryCacheDir sample_host (sample_world\<lparr>denied := {}\<rparr>))
       in dirs created =
            {''/home/u/bridge/sentry_cache'', ''/home/u/bridge'', ''/home/u'', ''/home''}
          \<and> fst (sentryCacheDir sample_host created) \<in> dirs created
          \<and> sentryCacheDir sample_host created = (''/home/u/bridge/sentry_cache'', created))"
proof -
  let ?p = "''/home/u/bridge/sentry_cache''"
  let ?created = "snd (sentryCacheDir sample_host (sample_world\<lparr>denied := {}\<rparr>))"
  have root: "absolutePath sample_host d = d" "userDataDir sample_host = ''/home/u/bridge''" for d
    by (simp_all add: sample_host_def)
  have path: "fst (sentryCacheDir sample_host w) = ?p" for w
    by (simp add: sentryCacheDir_path sample_cache_path)
  have world: "snd (sentryCacheDir sample_host w) = snd (mkpath ?p w)" for w
    by (simp add: sentryCacheDir_world sample_cache_path)
  have created: "dirs ?created = {?p, ''/home/u/bridge'', ''/home/u'', ''/home''}"
    by (simp add: world sample_mkpath_created)
  then have there: "?p \<in> dirs ?created"
    by simp
  from sentryCacheDir_idempotent [of sample_host sample_world]
  have "\<not> fst (mkpath (fst (sentryCacheDir sample_host sample_world)) sample_world) \<longrightarrow>
      sentryCacheDir sample_host sample_world =
        (absoluteFilePath sample_host (userDataDir sample_host) ''sentry_cache'',
         sample_world\<lparr>dirs := dirs (snd (sentryCacheDir sample_host sample_world))\<rparr>)"
    by blast
  then have refused: "sentryCacheDir sample_host sample_world = (?p, sample_world)"
    by (simp add: path world sample_mkpath_refused sample_cache_path)
  from sentryCacheDir_idempotent [of sample_host ?created]
  have "fst (sentryCacheDir sample_host ?created) \<in> dirs ?created \<longrightarrow>
      snd (sentryCacheDir sample_host ?created) = ?created"
    by blast
  with there have "snd (sentryCacheDir sample_host ?created) = ?created"
    by (simp only: path simp_thms)
  then have "sentryCacheDir sample_host ?created = (?p, ?created)"
    by (simp only: path prod_eq_iff fst_conv snd_conv simp_thms)
  with refused created show ?thesis
    by (simp add: root path sample_mkpath_refused Let_def)
qed

text \<open>
  C6: \<open>setSentryReportScope\<close> twice in a row leaves the world that one call leaves. After
  a second call, also one made for other values, each of the five tags \<open>OS\<close>,
  \<open>Client\<close>, \<open>Version\<close>, \<open>HostArch\<close> and \<open>server_name\<close> holds the value the later call
  wrote, the user is one object whose \<open>id\<close> is the protected host name, and, when the tags
  had one pair for each key before, each of the five keys has exactly one pair.
\<close>

theorem setSentryReportScope_idempotent:
  "setSentryReportScope h (setSentryReportScope h w) = setSentryReportScope h w
   \<and> (let w2 = setSentryReportScope h' (setSentryReportScope h w)
       in map_of (tags w2) ''OS'' = Some (VString (goos h'))
          \<and> map_of (tags w2) ''Client'' = Some (VString (PROJECT_FULL_NAME (build h')))
          \<and> map_of (tags w2) ''Version'' = Some (VString (PROJECT_REVISION (build h')))
          \<and> map_of (tags w2) ''HostArch'' = Some (VString (currentCpuArchitecture h'))
          \<and> map_of (tags w2) ''server_name'' = Some (VString (getProtectedHostname h'))
          \<and> user w2 = VObject [(''id'', VString (getProtectedHostname h'))]
          \<and> (distinct (map fst (tags w)) \<longrightarrow>
               distinct (map fst (tags w2))
               \<and> (\<forall>k \<in> set [''OS'', ''Client'', ''Version'', ''HostArch'', ''server_name''].
                     length (filter (\<lambda>p. fst p = k) (tags w2)) = 1)))"
proof -
  let ?w1 = "setSentryReportScope h w"
  let ?w2 = "setSentryReportScope h' ?w1"
  let ?keys = "[''OS'', ''Client'', ''Version'', ''HostArch'', ''server_name'']"
  have "''OS'' \<in> set (map fst (tags ?w2))"
    and "''Client'' \<in> set (map fst (tags ?w2))"
    and "''Version'' \<in> set (map fst (tags ?w2))"
    and "''HostArch'' \<in> set (map fst (tags ?w2))"
    and "''server_name'' \<in> set (map fst (tags ?w2))"
    unfolding setSentryReportScope_tags [of h'] by (rule key_set_by_key | rule key_kept)+
  then have keys: "k \<in> set (map fst (tags ?w2))" if "k \<in> set ?keys" for k
    using that by auto
  have dist: "distinct (map fst (tags ?w2))" if "distinct (map fst (tags w))"
  proof -
    from that have "distinct (map fst (tags ?w1))"
      by (simp add: setSentryReportScope_tags [of h w] distinct_set_by_key)
    then show ?thesis
      by (simp add: setSentryReportScope_tags [of h' ?w1] distinct_set_by_key)
  qed
  have one: "length (filter (\<lambda>p. fst p = k) (tags ?w2)) = 1"
    if "distinct (map fst (tags w))" and "k \<in> set ?keys" for k
    using dist [OF that(1)] keys [OF that(2)] by (rule one_pair_per_key)
  have looked_up:
    "map_of (tags ?w2) ''OS'' = Some (VString (goos h'))"
    "map_of (tags ?w2) ''Client'' = Some (VString (PROJECT_FULL_NAME (build h')))"
    "map_of (tags ?w2) ''Version'' = Some (VString (PROJECT_REVISION (build h')))"
    "map_of (tags ?w2) ''HostArch'' = Some (VString (currentCpuArchitecture h'))"
    "map_of (tags ?w2) ''server_name'' = Some (VString (getProtectedHostname h'))"
    by (simp_all add: setSentryReportScope_tags [of h' ?w1] map_of_set_by_key)
  have "distinct (map fst (tags w)) \<longrightarrow>
          distinct (map fst (tags ?w2))
          \<and> (\<forall>k \<in> set ?keys. length (filter (\<lambda>p. fst p = k) (tags ?w2)) = 1)"
    using dist one by blast
  with looked_up show ?thesis
    unfolding Let_def setSentryReportScope_twice setSentryReportScope_user by blast
qed

theorem setSentryReportScope_idempotent_witness:
  "distinct (map fst (tags sample_world))
   \<and> tags (setSentryReportScope sample_host (setSentryReportScope sample_host sample_world)) =
       [(''OS'', VString ''linux''),
        (''Client'', VString ''Proton Mail Bridge''),
        (''Version'', VString ''0a1b2c3''),
        (''HostArch'', VString ''x86_64''),
        (''server_name'', VString (getProtectedHostname sample_host))]
   \<and> length (filter (\<lambda>p. fst p = ''OS'')
         (tags (setSentryReportScope sample_host (setSentryReportScope sample_host sample_world)))) = 1
   \<and> length (filter (\<lambda>p. fst p = ''server_name'')
         (tags (setSentryReportScope sample_host (setSentryReportScope sample_host sample_world)))) = 1
   \<and> map_of (tags (setSentryReportScope (sample_host\<lparr>goos := ''darwin''\<rparr>)
                 (setSentryReportScope sample_host sample_world))) ''OS'' = Some (VString ''darwin'')"
proof -
  have once: "tags (setSentryReportScope sample_host sample_world) =
       [(''OS'', VString ''linux''),
        (''Client'', VString ''Proton Mail Bridge''),
        (''Version'', VString ''0a1b2c3''),
        (''HostArch'', VString ''x86_64''),
        (''server_name'', VString (getProtectedHostname sample_host))]"
    by (simp add: setSentryReportScope_tags)
       (simp add: sample_host_def sample_build_def sample_world_def)
  show ?thesis
    using setSentryReportScope_idempotent [of sample_host sample_world sample_host]
      setSentryReportScope_idempotent [of sample_host sample_world "sample_host\<lparr>goos := ''darwin''\<rparr>"]
    by (simp add: Let_def once) (simp add: sample_world_def sample_host_def)
qed

text \<open>
  C7: for every DSN and cache directory, the options \<open>newSentryOptions\<close> returns have the
  breadcrumb limit 50, the given DSN, the given cache directory as database path, the
  release \<open>appVersion(PROJECT_VER)\<close> and the environment \<open>PROJECT_BUILD_ENV\<close>; the handler
  path is left as \<open>sentry_options_new\<close> gave it, and the world is the same after the
  call as before.
\<close>

theorem newSentryOptions_fields:
  "max_breadcrumbs (newSentryOptions h sentryDNS cacheDir) = 50
   \<and> dsn (newSentryOptions h sentryDNS cacheDir) = Some sentryDNS
   \<and> database_path (newSentryOptions h sentryDNS cacheDir) = Some cacheDir
   \<and> release (newSentryOptions h sentryDNS cacheDir) = Some (appVersion h (PROJECT_VER (build h)))
   \<and> environment (newSentryOptions h sentryDNS cacheDir) = Some (PROJECT_BUILD_ENV (build h))
   \<and> handler_path (newSentryOptions h sentryDNS cacheDir) = handler_path (default_options h)
   \<and> call h (BuildOptions sentryDNS cacheDir) w =
       (Inr (Options (newSentryOptions h sentryDNS cacheDir)), w)"
  by (simp add: newSentryOptions_record call_def)

theorem newSentryOptions_fields_witness:
  "newSentryOptions sample_host ''https://other@sentry.invalid/9'' ''/tmp/cache'' =
     \<lparr>dsn = Some ''https://other@sentry.invalid/9'',
      database_path = Some ''/tmp/cache'',
      release = Some ''linux-bridge@1.2.3'',
      max_breadcrumbs = 50,
      environment = Some ''dev'',
      handler_path = None\<rparr>
   \<and> max_breadcrumbs (default_options sample_host) = 100
   \<and> snd (call sample_host (BuildOptions ''https://other@sentry.invalid/9'' ''/tmp/cache'')
              sample_world) = sample_world"
  using newSentryOptions_fields
    [of sample_host "''https://other@sentry.invalid/9''" "''/tmp/cache''" sample_world]
  by (simp add: newSentryOptions_record appVersion_def getApiOS_def)
     (simp add: sample_host_def sample_build_def)

text \<open>
  C8: for every version string \<open>v\<close>, \<open>appVersion\<close> returns the label of \<open>getApiOS\<close>, then
  \<open>-bridge@\<close>, then \<open>v\<close>; where the OS family maps to \<open>linux\<close>, version \<open>1.2.3\<close> gives
  exactly \<open>linux-bridge@1.2.3\<close>.
\<close>

theorem appVersion_format:
  "appVersion h v = getApiOS h @ ''-bridge@'' @ v
   \<and> appVersion (h\<lparr>os := Linux\<rparr>) ''1.2.3'' = ''linux-bridge@1.2.3''
   \<and> appVersion (h\<lparr>os := OtherOS n\<rparr>) ''1.2.3'' = ''linux-bridge@1.2.3''"
  by (simp add: appVersion_def getApiOS_def)

text \<open>
  C9: after \<open>setSentryReportScope\<close> the tag \<open>server_name\<close> and the field \<open>id\<close> of the
  user are the same text, the 64 hexadecimal digits of the SHA-256 digest of the host
  name (for the names \<open>abc\<close> and the empty name, the digests SHA-256 has for them). They
  stay so through every later sequence of operations of the module, and every event the
  client captures in that sequence, one for each report, message and exception alike,
  carries that text at the tag \<open>server_name\<close> and at the \<open>id\<close> of its user.
\<close>

theorem scope_identifiers_agree:
  "(let digest = toHex (sha256 (toUtf8 (machineHostName h)));
        w1 = setSentryReportScope h w;
        w2 = calls h operations w1;
        events = drop (length (captured w1)) (captured w2)
    in map_of (tags w1) ''server_name'' = Some (VString digest)
       \<and> sentry_value_get_by_key (user w1) ''id'' = VString digest
       \<and> length digest = 64
       \<and> map_of (tags w2) ''server_name'' = Some (VString digest)
       \<and> sentry_value_get_by_key (user w2) ''id'' = VString digest
       \<and> captured w2 = captured w1 @ events
       \<and> length events = length (filter is_report operations)
       \<and> (\<forall>event \<in> set events.
             sentry_value_get_by_key (sentry_value_get_by_key event ''tags'') ''server_name'' =
               VString digest
             \<and> sentry_value_get_by_key (sentry_value_get_by_key event ''user'') ''id'' =
               VString digest))
   \<and> map_of (tags (setSentryReportScope (h\<lparr>machineHostName := ''abc''\<rparr>) w)) ''server_name'' =
       Some (VString ''ba7816bf8f01cfea414140de5dae2223b00361a396177a9cb410ff61f20015ad'')
   \<and> user (setSentryReportScope (h\<lparr>machineHostName := ''abc''\<rparr>) w) =
       VObject [(''id'', VString ''ba7816bf8f01cfea414140de5dae2223b00361a396177a9cb410ff61f20015ad'')]
   \<and> map_of (tags (setSentryReportScope (h\<lparr>machineHostName := []\<rparr>) w)) ''server_name'' =
       Some (VString ''e3b0c44298fc1c149afbf4c8996fb92427ae41e4649b934ca495991b7852b855'')
   \<and> user (setSentryReportScope (h\<lparr>machineHostName := []\<rparr>) w) =
       VObject [(''id'', VString ''e3b0c44298fc1c149afbf4c8996fb92427ae41e4649b934ca495991b7852b855'')]"
proof -
  let ?w1 = "setSentryReportScope h w"
  let ?w2 = "calls h operations ?w1"
  have digest: "toHex (sha256 (toUtf8 (machineHostName h))) = getProtectedHostname h"
    by (simp add: getProtectedHostname_def)
  have len: "length (getProtectedHostname h) = 64"
    by (simp add: getProtectedHostname_def length_toHex length_sha256)
  have later: "map_of (tags ?w2) ''server_name'' = Some (VString (getProtectedHostname h))
      \<and> user ?w2 = VObject [(''id'', VString (getProtectedHostname h))]"
    by (rule calls_keep_scope) (rule scope_established)+
  from calls_report [OF scope_established, where operations = operations and h = h and w1 = w]
  obtain new where new: "captured ?w2 = captured ?w1 @ new"
    "length new = length (filter is_report operations)"
    "\<forall>event \<in> set new.
       sentry_value_get_by_key (sentry_value_get_by_key event ''tags'') ''server_name'' =
         VString (getProtectedHostname h)
       \<and> sentry_value_get_by_key (sentry_value_get_by_key event ''user'') ''id'' =
         VString (getProtectedHostname h)"
    by blast
  have events: "drop (length (captured ?w1)) (captured ?w2) = new"
    by (simp add: new(1))
  have known:
    "getProtectedHostname (h\<lparr>machineHostName := ''abc''\<rparr>) =
       ''ba7816bf8f01cfea414140de5dae2223b00361a396177a9cb410ff61f20015ad''"
    "getProtectedHostname (h\<lparr>machineHostName := []\<rparr>) =
       ''e3b0c44298fc1c149afbf4c8996fb92427ae41e4649b934ca495991b7852b855''"
    by (simp_all add: digest_of_name sha256_abc sha256_empty)
  have first: "map_of (tags ?w1) ''server_name'' = Some (VString (getProtectedHostname h))"
    "sentry_value_get_by_key (user ?w1) ''id'' = VString (getProtectedHostname h)"
    by (simp_all add: scope_established sentry_value_get_by_key_def)
  from later have second: "map_of (tags ?w2) ''server_name'' = Some (VString (getProtectedHostname h))"
    "sentry_value_get_by_key (user ?w2) ''id'' = VString (getProtectedHostname h)"
    by (simp_all add: sentry_value_get_by_key_def)
  show ?thesis
    unfolding Let_def digest events
    using new first second len
    by (simp add: scope_established known)
qed

theorem scope_identifiers_agree_witness:
  "(let w2 = calls sample_host
               [ReportEvent SENTRY_LEVEL_INFO ''started'', ResolveCacheDirectory, Initialize,
                ReportException SENTRY_LEVEL_ERROR ''sync failed'' ''Exception'' ''bad state'']
               (setSentryReportScope sample_host sample_world)
    in map_of (tags w2) ''server_name'' =
         Some (VString ''ba7816bf8f01cfea414140de5dae2223b00361a396177a9cb410ff61f20015ad'')
       \<and> sentry_value_get_by_key (user w2) ''id'' =
         VString ''ba7816bf8f01cfea414140de5dae2223b00361a396177a9cb410ff61f20015ad''
       \<and> length (captured w2) = 2
       \<and> sentry_value_get_by_key (sentry_value_get_by_key (captured w2 ! 0) ''tags'')
           ''server_name'' =
         VString ''ba7816bf8f01cfea414140de5dae2223b00361a396177a9cb410ff61f20015ad''
       \<and> sentry_value_get_by_key (sentry_value_get_by_key (captured w2 ! 0) ''user'') ''id'' =
         VString ''ba7816bf8f01cfea414140de5dae2223b00361a396177a9cb410ff61f20015ad''
       \<and> sentry_value_get_by_key (sentry_value_get_by_key (captured w2 ! 1) ''tags'')
           ''server_name'' =
         VString ''ba7816bf8f01cfea414140de5dae2223b00361a396177a9cb410ff61f20015ad''
       \<and> sentry_value_get_by_key (sentry_value_get_by_key (captured w2 ! 1) ''user'') ''id'' =
         VString ''ba7816bf8f01cfea414140de5dae2223b00361a396177a9cb410ff61f20015ad''
       \<and> sentry_value_get_by_key (captured w2 ! 0) ''exception'' = VNull
       \<and> sentry_value_get_by_key (captured w2 ! 1) ''exception'' =
         VObject [(''values'',
           VList [VObject [(''type'', VString ''Exception''), (''value'', VString ''bad state'')]])])"
proof -
  let ?operations =
    "[ReportEvent SENTRY_LEVEL_INFO ''started'', ResolveCacheDirectory, Initialize,
      ReportException SENTRY_LEVEL_ERROR ''sync failed'' ''Exception'' ''bad state'']"
  let ?w1 = "setSentryReportScope sample_host sample_world"
  let ?w2 = "calls sample_host ?operations ?w1"
  let ?d = "''ba7816bf8f01cfea414140de5dae2223b00361a396177a9cb410ff61f20015ad''"
  note agree = scope_identifiers_agree [where h = sample_host and w = sample_world
      and operations = ?operations,
      unfolded Let_def sample_digest [unfolded getProtectedHostname_def]]
  have none: "captured ?w1 = []"
    by (simp add: setSentryReportScope_frame sample_world_def)
  from agree have kept: "map_of (tags ?w2) ''server_name'' = Some (VString ?d)"
    "sentry_value_get_by_key (user ?w2) ''id'' = VString ?d"
    by blast+
  from agree have "length (drop (length (captured ?w1)) (captured ?w2)) =
      length (filter is_report ?operations)"
    by blast
  then have two: "length (captured ?w2) = 2"
    by (simp add: none)
  from agree have "\<forall>event \<in> set (drop (length (captured ?w1)) (captured ?w2)).
      sentry_value_get_by_key (sentry_value_get_by_key event ''tags'') ''server_name'' = VString ?d
      \<and> sentry_value_get_by_key (sentry_value_get_by_key event ''user'') ''id'' = VString ?d"
    by blast
  then have every: "sentry_value_get_by_key (sentry_value_get_by_key (captured ?w2 ! i) ''tags'')
        ''server_name'' = VString ?d
      \<and> sentry_value_get_by_key (sentry_value_get_by_key (captured ?w2 ! i) ''user'') ''id'' =
        VString ?d" if "i < 2" for i
    using that two by (simp add: none)
  let ?report = "ReportEvent SENTRY_LEVEL_INFO ''started''"
  let ?raise = "ReportException SENTRY_LEVEL_ERROR ''sync failed'' ''Exception'' ''bad state''"
  let ?wa = "snd (call sample_host ?report ?w1)"
  let ?wb = "calls sample_host [?report, ResolveCacheDirectory, Initialize] ?w1"
  let ?e1 = "scope_apply_to_event ?w1
      (sentry_value_new_message_event sample_host SENTRY_LEVEL_INFO LoggerName ''started'')"
  let ?e2 = "scope_apply_to_event ?wb
      (sentry_event_add_exception
         (sentry_value_new_message_event sample_host SENTRY_LEVEL_ERROR LoggerName ''sync failed'')
         (sentry_value_new_exception ''Exception'' ''bad state''))"
  have user1: "user ?w1 = VObject [(''id'', VString (getProtectedHostname sample_host))]"
    by (rule scope_established)
  have userb: "user ?wb = VObject [(''id'', VString (getProtectedHostname sample_host))]"
    using calls_keep_scope [OF scope_established, where h = sample_host
        and operations = "[?report, ResolveCacheDirectory, Initialize]"]
    by blast
  have e1: "sentry_value_get_by_key ?e1 ''exception'' = VNull"
    unfolding scoped_message_event [OF user1] by (simp add: sentry_value_get_by_key_def)
  have e2: "sentry_value_get_by_key ?e2 ''exception'' =
      VObject [(''values'',
        VList [VObject [(''type'', VString ''Exception''), (''value'', VString ''bad state'')]])]"
    unfolding scoped_exception_event [OF userb]
    by (simp add: sentry_value_get_by_key_def exception_pairs)
  have first: "captured ?wa = [?e1]"
    by (simp add: call_def reportSentryEvent_def sentry_capture_event_def Let_def none)
  have before: "captured ?wb = captured ?wa"
    by (simp add: call_scope initSentry_captured)
  have raised: "captured (snd (call sample_host ?raise w')) = captured w' @
      [scope_apply_to_event w'
         (sentry_event_add_exception
            (sentry_value_new_message_event sample_host SENTRY_LEVEL_ERROR LoggerName
               ''sync failed'')
            (sentry_value_new_exception ''Exception'' ''bad state''))]" for w'
    by (simp add: call_def reportSentryException_def sentry_capture_event_def Let_def)
  have "?w2 = snd (call sample_host ?raise ?wb)"
    by simp
  then have both: "captured ?w2 = [?e1, ?e2]"
    by (simp only: raised before first append_Cons append_Nil)
  have shape: "sentry_value_get_by_key (captured ?w2 ! 0) ''exception'' = VNull"
    "sentry_value_get_by_key (captured ?w2 ! 1) ''exception'' =
       VObject [(''values'',
         VList [VObject [(''type'', VString ''Exception''), (''value'', VString ''bad state'')]])]"
    unfolding both by (simp_all only: nth_Cons_0 nth_Cons_Suc One_nat_def e1 e2)
  show ?thesis
    unfolding Let_def using kept two every [of 0] every [of 1] shape by simp
qed

text \<open>
  C10: for every level and message, \<open>reportSentryEvent\<close> hands the message event to
  \<open>sentry_capture_event\<close>, and \<open>reportSentryException\<close> hands over that same event with
  one more entry, \<open>exception\<close>, holding the one exception object made of the type and
  the value given. Both events have the logger \<open>bridge-gui\<close>, and each operation returns
  the identifier \<open>sentry_capture_event\<close> returns for its event.
\<close>

theorem reportSentryException_extends_event:
  "(let event = sentry_value_new_message_event h level LoggerName message;
        exc = sentry_value_new_exception exceptionType exception;
        event' = sentry_value_set_by_key event ''exception'' (VObject [(''values'', VList [exc])])
    in reportSentryEvent h level message w =
         (capture_id h event,
          w\<lparr>submitted := submitted w @ [event],
            captured := captured w @ [scope_apply_to_event w event]\<rparr>)
       \<and> reportSentryException h level message exceptionType exception w =
         (capture_id h event',
          w\<lparr>submitted := submitted w @ [event'],
            captured := captured w @ [scope_apply_to_event w event']\<rparr>)
       \<and> event' = sentry_event_add_exception event exc
       \<and> exc = VObject [(''type'', VString exceptionType), (''value'', VString exception)]
       \<and> sentry_value_get_by_key event ''exception'' = VNull
       \<and> sentry_value_get_by_key event' ''exception'' = VObject [(''values'', VList [exc])]
       \<and> sentry_value_get_by_key event ''logger'' = VString ''bridge-gui''
       \<and> sentry_value_get_by_key event' ''logger'' = VString ''bridge-gui''
       \<and> fst (reportSentryEvent h level message w) = fst (sentry_capture_event h event w)
       \<and> fst (reportSentryException h level message exceptionType exception w) =
           fst (sentry_capture_event h event' w))"
  by (simp add: Let_def reportSentryEvent_def reportSentryException_def
      add_exception_to_message_event sentry_capture_event_def exception_pairs)
     (simp add: message_event_pairs sentry_value_get_by_key_def sentry_value_set_by_key_def
      LoggerName_def)

theorem reportSentryException_extends_event_witness:
  "snd (reportSentryEvent sample_host SENTRY_LEVEL_ERROR ''sync failed'' sample_world) =
     sample_world\<lparr>submitted :=
       [VObject [(''event_id'', VString ''4c035558-6b9f-4d9c-8c0e-2f4fbd4a3b11''),
                 (''timestamp'', VString ''2023-01-01T00:00:00Z''),
                 (''platform'', VString ''native''),
                 (''level'', VString ''error''),
                 (''logger'', VString ''bridge-gui''),
                 (''message'', VObject [(''formatted'', VString ''sync failed'')])]],
       captured :=
       [VObject [(''event_id'', VString ''4c035558-6b9f-4d9c-8c0e-2f4fbd4a3b11''),
                 (''timestamp'', VString ''2023-01-01T00:00:00Z''),
                 (''platform'', VString ''native''),
                 (''level'', VString ''error''),
                 (''logger'', VString ''bridge-gui''),
                 (''message'', VObject [(''formatted'', VString ''sync failed'')]),
                 (''tags'', VObject [])]]\<rparr>
   \<and> snd (reportSentryException sample_host SENTRY_LEVEL_ERROR ''sync failed''
              ''Exception'' ''bad state'' sample_world) =
     sample_world\<lparr>submitted :=
       [VObject [(''event_id'', VString ''4c035558-6b9f-4d9c-8c0e-2f4fbd4a3b11''),
                 (''timestamp'', VString ''2023-01-01T00:00:00Z''),
                 (''platform'', VString ''native''),
                 (''level'', VString ''error''),
                 (''logger'', VString ''bridge-gui''),
                 (''message'', VObject [(''formatted'', VString ''sync failed'')]),
                 (''exception'',
                  VObject [(''values'',
                    VList [VObject [(''type'', VString ''Exception''),
                                    (''value'', VString ''bad state'')]])])]],
       captured :=
       [VObject [(''event_id'', VString ''4c035558-6b9f-4d9c-8c0e-2f4fbd4a3b11''),
                 (''timestamp'', VString ''2023-01-01T00:00:00Z''),
                 (''platform'', VString ''native''),
                 (''level'', VString ''error''),
                 (''logger'', VString ''bridge-gui''),
                 (''message'', VObject [(''formatted'', VString ''sync failed'')]),
                 (''exception'',
                  VObject [(''values'',
                    VList [VObject [(''type'', VString ''Exception''),
                                    (''value'', VString ''bad state'')]])]),
                 (''tags'', VObject [])]]\<rparr>
   \<and> fst (reportSentryException sample_host SENTRY_LEVEL_ERROR ''sync failed''
              ''Exception'' ''bad state'' sample_world) = 7"
proof -
  have scope: "user sample_world = VNull" "tags sample_world = []"
    "submitted sample_world = []" "captured sample_world = []"
    by (simp_all add: sample_world_def)
  have host: "event_id_text sample_host = ''4c035558-6b9f-4d9c-8c0e-2f4fbd4a3b11''"
    "timestamp_text sample_host = ''2023-01-01T00:00:00Z''"
    "capture_id sample_host = (\<lambda>event. 7)"
    by (simp_all add: sample_host_def)
  show ?thesis
    using reportSentryException_extends_event
      [of sample_host SENTRY_LEVEL_ERROR "''sync failed''" "''Exception''" "''bad state''"
        sample_world]
    by (simp add: Let_def message_event_pairs sentry_value_set_by_key_def LoggerName_def
        exception_pairs scope_apply_to_event_def sentry_value_get_by_key_def scope host)
qed

end
